theory Spec2Isabelle
  imports Complex_Main "HOL-Library.Sublist"
begin

section \<open>Python values and exceptions\<close>

text \<open>
  The song browser is a Python script: a duration formatter, a loader that turns a JSON file
  into a pandas frame restricted to one playlist, and two text filters over that frame.
  Strings are lists of characters, a character being a code point below 256.
  Exceptions are values; a function that can raise returns a sum with the exception on the
  left.
\<close>

datatype exn = ValueError | TypeError | OverflowError | KeyError | ReError

text \<open>
  A Python float is a finite value or one of the three special values. Finite values are
  rationals and the arithmetic on them is exact: the rounding of IEEE doubles is not part of
  this model. \<open>float(n)\<close> of an integer is exact below \<open>2 ^ 53\<close>, and raises
  OverflowError once \<open>n\<close> rounds to \<open>2 ^ 1024\<close>.
\<close>

datatype pyfloat = FFin rat | FInf | FNegInf | FNaN

datatype pynum = NBool bool | NInt int | NFloat pyfloat

text \<open>
  The values \<open>format_songlength\<close> can be handed: \<open>PNum\<close> holds exactly the instances of
  \<open>int\<close> or \<open>float\<close> (a \<open>bool\<close> is an \<open>int\<close> in Python), \<open>POther\<close> is any other object
  (a list, a dict).
\<close>

datatype pyval = PNone | PNum pynum | PStr string | POther

section \<open>format\_songlength\<close>

fun num_lt_zero :: "pynum \<Rightarrow> bool" where
  "num_lt_zero (NBool b) = False"
| "num_lt_zero (NInt n) = (n < 0)"
| "num_lt_zero (NFloat (FFin x)) = (x < 0)"
| "num_lt_zero (NFloat FNegInf) = True"
| "num_lt_zero (NFloat FInf) = False"
| "num_lt_zero (NFloat FNaN) = False"

fun py_float :: "pynum \<Rightarrow> exn + pyfloat" where
  "py_float (NBool b) = Inr (FFin (if b then 1 else 0))"
| "py_float (NInt n) =
     (if 2 ^ 1024 - 2 ^ 970 \<le> \<bar>n\<bar> then Inl OverflowError else Inr (FFin (of_int n)))"
| "py_float (NFloat f) = Inr f"

fun float_div :: "pyfloat \<Rightarrow> rat \<Rightarrow> pyfloat" where
  "float_div (FFin x) d = FFin (x / d)"
| "float_div FInf d = FInf"
| "float_div FNegInf d = FNegInf"
| "float_div FNaN d = FNaN"

fun py_int :: "pyfloat \<Rightarrow> exn + int" where
  "py_int (FFin x) = Inr (if 0 \<le> x then \<lfloor>x\<rfloor> else \<lceil>x\<rceil>)"
| "py_int FNaN = Inl ValueError"
| "py_int FInf = Inl OverflowError"
| "py_int FNegInf = Inl OverflowError"

definition digit_char :: "nat \<Rightarrow> char" where
  "digit_char d = char_of (48 + d)"

fun dec :: "nat \<Rightarrow> string" where
  "dec n = (if n < 10 then [digit_char n] else dec (n div 10) @ [digit_char (n mod 10)])"

declare dec.simps [simp del]

text \<open>The format specification \<open>02\<close>: zero fill after the sign, to a width of at least two.\<close>

definition fmt02 :: "int \<Rightarrow> string" where
  "fmt02 n =
     (if n < 0 then CHR ''-'' # replicate (1 - length (dec (nat (- n)))) CHR ''0'' @ dec (nat (- n))
      else replicate (2 - length (dec (nat n))) CHR ''0'' @ dec (nat n))"

definition on_exception :: "exn \<Rightarrow> string" where
  "on_exception e = (if e = ValueError \<or> e = TypeError then ''Invalid'' else ''Error'')"

definition songlength_body :: "pynum \<Rightarrow> exn + string" where
  "songlength_body milliseconds =
     (case py_float milliseconds of
        Inl e \<Rightarrow> Inl e
      | Inr f \<Rightarrow>
          (case py_int (float_div f 1000) of
             Inl e \<Rightarrow> Inl e
           | Inr total_seconds \<Rightarrow>
               (let minutes = total_seconds div 60;
                    seconds = total_seconds mod 60
                in Inr (fmt02 minutes @ '':'' @ fmt02 seconds))))"

fun format_songlength :: "pyval \<Rightarrow> string" where
  "format_songlength PNone = ''N/A''"
| "format_songlength (PStr s) = ''N/A''"
| "format_songlength POther = ''N/A''"
| "format_songlength (PNum milliseconds) =
     (if num_lt_zero milliseconds then ''N/A''
      else (case songlength_body milliseconds of
              Inl e \<Rightarrow> on_exception e
            | Inr s \<Rightarrow> s))"

text \<open>The shape \<open>\d{2}:\d{2}\<close>, as a full match.\<close>

definition is_digit :: "char \<Rightarrow> bool" where
  "is_digit c = (48 \<le> (of_char c :: nat) \<and> (of_char c :: nat) \<le> 57)"

fun matches_mmss :: "string \<Rightarrow> bool" where
  "matches_mmss [a, b, c, d, e] =
     (is_digit a \<and> is_digit b \<and> c = CHR '':'' \<and> is_digit d \<and> is_digit e)"
| "matches_mmss s = False"

section \<open>Text: lower case and case-insensitive containment\<close>

definition backslash :: char where
  "backslash = CHR 0x5C"

text \<open>
  \<open>str.lower\<close> on code points below 256: the ASCII capitals and the Latin-1 capitals
  (\<open>0xC0\<close> to \<open>0xDE\<close> without the multiplication sign) move up by 32.
\<close>

definition lower_char :: "char \<Rightarrow> char" where
  "lower_char c =
     (let n = (of_char c :: nat)
      in if (65 \<le> n \<and> n \<le> 90) \<or> (192 \<le> n \<and> n \<le> 222 \<and> n \<noteq> 215)
         then char_of (n + 32) else c)"

definition py_lower :: "string \<Rightarrow> string" where
  "py_lower s = map lower_char s"

text \<open>
  The words of the specification, "contains the query as a substring, case-insensitive":
  the lowered query is a contiguous part of the lowered text.
\<close>

definition contains_ci :: "string \<Rightarrow> string \<Rightarrow> bool" where
  "contains_ci text query = sublist (py_lower query) (py_lower text)"

section \<open>Regular expressions as \<open>str.contains\<close> uses them\<close>

text \<open>
  \<open>Series.str.contains(pat, case=False, na=False)\<close> leaves \<open>regex\<close> at its default
  \<open>True\<close>: pandas compiles \<open>pat\<close> with \<open>re.IGNORECASE\<close> and keeps the elements in
  which \<open>search\<close> finds a match. The model covers a fragment of the pattern syntax:
  literals, the dot, groups, alternation, the postfix operators \<open>*\<close>, \<open>+\<close>, \<open>?\<close>
  and a backslash before a character that is not an ASCII letter or digit. A pattern that
  leaves the fragment gives \<open>Unmodelled\<close>; where the result is \<open>Raises\<close>, \<open>re.compile\<close>
  raises \<open>re.error\<close>.
\<close>

datatype 'a res = Returns 'a | Raises exn | Unmodelled

datatype regex =
    Nul
  | Eps
  | Lit char
  | Dot
  | Seq regex regex
  | Alt regex regex
  | Star regex

fun mk_seq :: "regex list \<Rightarrow> regex" where
  "mk_seq [] = Eps"
| "mk_seq (r # rs) = Seq r (mk_seq rs)"

fun mk_alt :: "regex list \<Rightarrow> regex \<Rightarrow> regex" where
  "mk_alt [] r = r"
| "mk_alt (a # as) r = Alt a (mk_alt as r)"

definition repeat_of :: "char \<Rightarrow> regex \<Rightarrow> regex" where
  "repeat_of c r =
     (if c = CHR ''*'' then Star r
      else if c = CHR ''+'' then Seq r (Star r)
      else Alt r Eps)"

definition is_ascii_alnum :: "char \<Rightarrow> bool" where
  "is_ascii_alnum c =
     (let n = (of_char c :: nat)
      in (48 \<le> n \<and> n \<le> 57) \<or> (65 \<le> n \<and> n \<le> 90) \<or> (97 \<le> n \<and> n \<le> 122))"

text \<open>The characters with a meaning of their own in a pattern.\<close>

definition metachars :: "char set" where
  "metachars = insert backslash (set ''.^$*+?{}[]|()'')"

text \<open>
  The parser reads the pattern from left to right. \<open>stack\<close> holds, for every group that is
  still open, the alternatives and the items that were being collected when it was opened;
  \<open>alts\<close> are the finished alternatives of the innermost group, \<open>items\<close> the items of
  its current branch, and \<open>rep\<close> tells that the last item is the result of a repeat.
\<close>

fun re_parse ::
  "string \<Rightarrow> (regex list \<times> regex list) list \<Rightarrow> regex list \<Rightarrow> regex list \<Rightarrow> bool \<Rightarrow> regex res"
where
  "re_parse [] stack alts items rep =
     (if stack = [] then Returns (mk_alt alts (mk_seq items)) else Raises ReError)"
| "re_parse (c # cs) stack alts items rep =
     (if c = backslash then
        (case cs of
           [] \<Rightarrow> Raises ReError
         | d # ds \<Rightarrow>
             if is_ascii_alnum d then Unmodelled
             else re_parse ds stack alts (items @ [Lit d]) False)
      else if c = CHR ''('' then
        (if take 1 cs = ''?'' then Unmodelled
         else re_parse cs ((alts, items) # stack) [] [] False)
      else if c = CHR '')'' then
        (case stack of
           [] \<Rightarrow> Raises ReError
         | (alts', items') # stack' \<Rightarrow>
             re_parse cs stack' alts' (items' @ [mk_alt alts (mk_seq items)]) False)
      else if c = CHR ''|'' then
        re_parse cs stack (alts @ [mk_seq items]) [] False
      else if c = CHR ''*'' \<or> c = CHR ''+'' \<or> c = CHR ''?'' then
        (if items = [] then Raises ReError
         else if rep then (if c = CHR ''*'' then Raises ReError else Unmodelled)
         else re_parse cs stack alts (butlast items @ [repeat_of c (last items)]) True)
      else if c = CHR ''.'' then
        re_parse cs stack alts (items @ [Dot]) False
      else if c \<in> set ''^$[]{}'' then Unmodelled
      else re_parse cs stack alts (items @ [Lit c]) False)"

definition re_compile :: "string \<Rightarrow> regex res" where
  "re_compile pat = re_parse pat [] [] [] False"

text \<open>Matching by derivatives; a literal matches a character of the same lower case.\<close>

fun nullable :: "regex \<Rightarrow> bool" where
  "nullable Nul = False"
| "nullable Eps = True"
| "nullable (Lit c) = False"
| "nullable Dot = False"
| "nullable (Seq r s) = (nullable r \<and> nullable s)"
| "nullable (Alt r s) = (nullable r \<or> nullable s)"
| "nullable (Star r) = True"

fun deriv :: "char \<Rightarrow> regex \<Rightarrow> regex" where
  "deriv x Nul = Nul"
| "deriv x Eps = Nul"
| "deriv x (Lit c) = (if lower_char x = lower_char c then Eps else Nul)"
| "deriv x Dot = (if x = CHR 0x0A then Nul else Eps)"
| "deriv x (Seq r s) =
     (if nullable r then Alt (Seq (deriv x r) s) (deriv x s) else Seq (deriv x r) s)"
| "deriv x (Alt r s) = Alt (deriv x r) (deriv x s)"
| "deriv x (Star r) = Seq (deriv x r) (Star r)"

text \<open>\<open>match_here r s\<close>: some prefix of \<open>s\<close> matches \<open>r\<close>.\<close>

fun match_here :: "regex \<Rightarrow> string \<Rightarrow> bool" where
  "match_here r [] = nullable r"
| "match_here r (x # xs) = (nullable r \<or> match_here (deriv x r) xs)"

text \<open>\<open>re_search r s\<close>: the pattern matches somewhere in \<open>s\<close> (\<open>search\<close> is not \<open>None\<close>).\<close>

fun re_search :: "regex \<Rightarrow> string \<Rightarrow> bool" where
  "re_search r [] = nullable r"
| "re_search r (x # xs) = (match_here r (x # xs) \<or> re_search r xs)"

definition str_contains :: "string list \<Rightarrow> string \<Rightarrow> bool list res" where
  "str_contains values pat =
     (case re_compile pat of
        Returns r \<Rightarrow> Returns (map (re_search r) values)
      | Raises e \<Rightarrow> Raises e
      | Unmodelled \<Rightarrow> Unmodelled)"

section \<open>Frames\<close>

text \<open>
  A cell of a text column holds a string or one of the two nulls of pandas: \<open>None\<close>, which
  a JSON \<open>null\<close> or an assignment of \<open>None\<close> leaves in an object column, and \<open>NaN\<close>,
  which the frame constructor puts where a song has no such key. The fields of a song are
  JSON strings or \<open>null\<close>. A frame is its column labels and its rows, every row pairing the
  labels with cells.
\<close>

datatype cell = CNone | CNaN | CStr string

type_synonym row = "(string \<times> cell) list"

record dataframe =
  columns :: "string list"
  rows :: "row list"

datatype msg = StError string | StWarning string | StInfo string

definition cell_at :: "row \<Rightarrow> string \<Rightarrow> cell" where
  "cell_at r c = (case map_of r c of Some v \<Rightarrow> v | None \<Rightarrow> CNaN)"

definition column :: "dataframe \<Rightarrow> string \<Rightarrow> cell list" where
  "column df c = map (\<lambda>r. cell_at r c) (rows df)"

fun notna :: "cell \<Rightarrow> bool" where
  "notna (CStr s) = True"
| "notna CNone = False"
| "notna CNaN = False"

text \<open>
  \<open>astype(str)\<close> on an object column applies \<open>str\<close> to every element, the nulls
  included (pandas before 3.0).
\<close>

fun astype_str :: "cell \<Rightarrow> string" where
  "astype_str (CStr s) = s"
| "astype_str CNone = ''None''"
| "astype_str CNaN = ''nan''"

definition rename_column :: "string \<Rightarrow> string \<Rightarrow> dataframe \<Rightarrow> dataframe" where
  "rename_column old new df =
     \<lparr>columns = map (\<lambda>c. if c = old then new else c) (columns df),
      rows = map (map (\<lambda>(k, v). (if k = old then new else k, v))) (rows df)\<rparr>"

definition add_column :: "string \<Rightarrow> cell \<Rightarrow> dataframe \<Rightarrow> dataframe" where
  "add_column c v df =
     \<lparr>columns = columns df @ [c], rows = map (\<lambda>r. r @ [(c, v)]) (rows df)\<rparr>"

definition map_cell :: "string \<Rightarrow> (cell \<Rightarrow> cell) \<Rightarrow> row \<Rightarrow> row" where
  "map_cell c f r = map (\<lambda>(k, v). (k, if k = c then f v else v)) r"

definition map_column :: "string \<Rightarrow> (cell \<Rightarrow> cell) \<Rightarrow> dataframe \<Rightarrow> dataframe" where
  "map_column c f df = df\<lparr>rows := map (map_cell c f) (rows df)\<rparr>"

text \<open>\<open>df[mask]\<close>: the rows whose entry in the boolean mask is true, in their order.\<close>

definition select_rows :: "dataframe \<Rightarrow> bool list \<Rightarrow> dataframe" where
  "select_rows df keep = df\<lparr>rows := map fst (filter snd (zip (rows df) keep))\<rparr>"

section \<open>The two text filters\<close>

text \<open>\<open>repr\<close> of a string without quotes or escapes, and of a list of such strings.\<close>

definition quoted :: "string \<Rightarrow> string" where
  "quoted s = CHR 0x27 # s @ [CHR 0x27]"

fun join :: "string \<Rightarrow> string list \<Rightarrow> string" where
  "join sep [] = []"
| "join sep [s] = s"
| "join sep (s # t # ss) = s @ sep @ join sep (t # ss)"

definition list_repr :: "string list \<Rightarrow> string" where
  "list_repr ss = ''['' @ join '', '' (map quoted ss) @ '']''"

text \<open>
  One filter block of the script: nothing happens for an empty query; a missing column is a
  warning; otherwise the rows whose column, as strings, contain the query stay.
  An exception of \<open>str.contains\<close> is caught nowhere.
\<close>

definition filter_column ::
  "string \<Rightarrow> string \<Rightarrow> dataframe \<times> msg list \<Rightarrow> (dataframe \<times> msg list) res"
where
  "filter_column col search st =
     (case st of (df, msgs) \<Rightarrow>
        if search = [] then Returns (df, msgs)
        else if col \<in> set (columns df) then
          (case str_contains (map astype_str (column df col)) search of
             Returns keep \<Rightarrow> Returns (select_rows df keep, msgs)
           | Raises e \<Rightarrow> Raises e
           | Unmodelled \<Rightarrow> Unmodelled)
        else Returns (df, msgs @
               [StWarning (''Cannot filter by '' @ col @ '': '' @ quoted col @ '' column missing.'')]))"

definition filtered_df :: "dataframe \<Rightarrow> string \<Rightarrow> string \<Rightarrow> (dataframe \<times> msg list) res" where
  "filtered_df df_songs search_name search_artist =
     (case filter_column ''Name'' search_name (df_songs, []) of
        Returns st \<Rightarrow> filter_column ''Artist'' search_artist st
      | Raises e \<Rightarrow> Raises e
      | Unmodelled \<Rightarrow> Unmodelled)"

section \<open>load\_song\_data\<close>

definition SONGLIST_FILE :: string where
  "SONGLIST_FILE = ''songs.json''"

text \<open>
  What \<open>open\<close> and \<open>json.load\<close> give for a path: no file, some other failure with its
  message, text that is not JSON, or the parsed value. A parsed value is a list of items or
  a value of another class, of which the loader uses the class only; an item is a dict
  (its keys in order, the first entry of a key counting) or anything else.
\<close>

datatype jval = JNull | JStr string

datatype item = Dict "(string \<times> jval) list" | NonDict

datatype pyclass = Class_dict | Class_str | Class_int | Class_float | Class_bool | Class_NoneType

datatype json = JList "item list" | JOther pyclass

datatype source = Absent | Unreadable string | Malformed | Contents json

fun class_name :: "pyclass \<Rightarrow> string" where
  "class_name Class_dict = ''dict''"
| "class_name Class_str = ''str''"
| "class_name Class_int = ''int''"
| "class_name Class_float = ''float''"
| "class_name Class_bool = ''bool''"
| "class_name Class_NoneType = ''NoneType''"

definition type_repr :: "pyclass \<Rightarrow> string" where
  "type_repr t = ''<class '' @ quoted (class_name t) @ ''>''"

fun is_dict :: "item \<Rightarrow> bool" where
  "is_dict (Dict d) = True"
| "is_dict NonDict = False"

fun dict_items :: "item list \<Rightarrow> (string \<times> jval) list list" where
  "dict_items [] = []"
| "dict_items (Dict d # xs) = d # dict_items xs"
| "dict_items (NonDict # xs) = dict_items xs"

fun cell_of :: "jval \<Rightarrow> cell" where
  "cell_of JNull = CNone"
| "cell_of (JStr s) = CStr s"

text \<open>
  \<open>pd.DataFrame(data)\<close> for a list of dicts: the columns are the keys in the order in which
  they are first seen, and a song without a key gets \<open>NaN\<close> there.
\<close>

definition first_seen :: "string list \<Rightarrow> string list" where
  "first_seen ks = rev (remdups (rev ks))"

definition DataFrame :: "(string \<times> jval) list list \<Rightarrow> dataframe" where
  "DataFrame data =
     (let cols = first_seen (concat (map (map fst) data))
      in \<lparr>columns = cols,
          rows = map (\<lambda>d. map (\<lambda>c. (c, case map_of d c of Some v \<Rightarrow> cell_of v | None \<Rightarrow> CNaN)) cols)
                   data\<rparr>)"

definition required_cols :: "string list" where
  "required_cols = [''Name'', ''Artist'', ''Playlist'', ''Year'', ''songlength'']"

text \<open>
  One round of the loop over \<open>required_cols\<close>: a column that is there stays; else the
  first column with the same lower case is renamed, with a warning; else the column is added
  with \<open>None\<close> in every row and noted as missing.
\<close>

definition ensure_column ::
  "dataframe \<times> msg list \<times> string list \<Rightarrow> string \<Rightarrow> dataframe \<times> msg list \<times> string list"
where
  "ensure_column st col =
     (case st of (df, msgs, missing_cols) \<Rightarrow>
        if col \<in> set (columns df) then (df, msgs, missing_cols)
        else
          (case find (\<lambda>existing_col. py_lower existing_col = py_lower col) (columns df) of
             Some existing_col \<Rightarrow>
               (rename_column existing_col col df,
                msgs @ [StWarning (''Info: Renaming column '' @ quoted existing_col @ '' to ''
                                   @ quoted col @ '' for consistency.'')],
                missing_cols)
           | None \<Rightarrow> (add_column col CNone df, msgs, missing_cols @ [col])))"

text \<open>
  The playlist tag: \<open>astype(str).str.split('\\').str[0]\<close> keeps what stands before the
  first backslash, and \<open>replace('nan', None)\<close> turns the string \<open>nan\<close> into \<open>None\<close>
  (an explicit \<open>None\<close> is the replacement value from pandas 1.4 on).
\<close>

definition split_first :: "string \<Rightarrow> string" where
  "split_first s = takeWhile (\<lambda>x. x \<noteq> backslash) s"

definition replace_nan :: "string \<Rightarrow> cell" where
  "replace_nan s = (if s = ''nan'' then CNone else CStr s)"

definition playlist_tag :: "cell \<Rightarrow> cell" where
  "playlist_tag c = replace_nan (split_first (astype_str c))"

definition process_playlist :: "dataframe \<times> msg list \<Rightarrow> dataframe \<times> msg list" where
  "process_playlist st =
     (case st of (df, msgs) \<Rightarrow>
        if ''Playlist'' \<in> set (columns df) \<and> list_ex notna (column df ''Playlist'')
        then (map_column ''Playlist'' playlist_tag df, msgs)
        else if ''Playlist'' \<notin> set (columns df)
        then (add_column ''Playlist'' CNone df,
              msgs @ [StWarning ''Playlist column not found, cannot process or filter by playlist.''])
        else (df, msgs))"

definition target_playlist :: string where
  "target_playlist = ''guitar hero 3''"

text \<open>\<open>df[df["Playlist"] == "guitar hero 3"]\<close>\<close>

definition select_playlist :: "dataframe \<Rightarrow> dataframe" where
  "select_playlist df =
     select_rows df (map (\<lambda>c. c = CStr target_playlist) (column df ''Playlist''))"

text \<open>
  From the parsed list to the frame with its required columns: items that are not dicts are
  dropped with a warning, the frame is built, the loop over \<open>required_cols\<close> runs, and
  the columns that had to be added are reported.
\<close>

definition read_frame :: "string \<Rightarrow> item list \<Rightarrow> dataframe \<times> msg list" where
  "read_frame file_path data =
     (let msgs0 =
            (if \<not> list_all is_dict data
             then [StWarning (''Warning: Some items in '' @ file_path
                     @ '' are not dictionaries (songs). Skipping non-dictionary items.'')]
             else []);
          df0 = DataFrame (dict_items data);
          (df1, msgs1, missing_cols) = foldl ensure_column (df0, msgs0, []) required_cols
      in if missing_cols \<noteq> []
         then (df1, msgs1 @ [StWarning (''Warning: Column(s) '' @ list_repr missing_cols
                 @ '' not found in '' @ file_path @ ''. They will be shown as empty.'')])
         else (df1, msgs1))"

text \<open>
  The body of the loader once the file holds a list. \<open>df["Playlist"]\<close> raises KeyError on a
  frame without that column; the handler for every other exception then reports it and
  the loader returns \<open>None\<close>.
\<close>

definition load_list :: "string \<Rightarrow> item list \<Rightarrow> dataframe option \<times> msg list" where
  "load_list file_path data =
     (let (df2, msgs3) = process_playlist (read_frame file_path data)
      in if ''Playlist'' \<in> set (columns df2)
         then (Some (select_playlist df2), msgs3)
         else (None, msgs3 @ [StError (''An unexpected error occurred while loading the data: ''
                 @ quoted ''Playlist'')]))"

definition load_json :: "string \<Rightarrow> json \<Rightarrow> dataframe option \<times> msg list" where
  "load_json file_path data =
     (case data of
        JOther t \<Rightarrow>
          (None, [StError (''Error: Expected a JSON list (array) in '' @ file_path
                    @ '', but found '' @ type_repr t @ ''.'')])
      | JList xs \<Rightarrow> load_list file_path xs)"

definition load_song_data :: "(string \<Rightarrow> source) \<Rightarrow> string \<Rightarrow> dataframe option \<times> msg list" where
  "load_song_data fs file_path =
     (case fs file_path of
        Absent \<Rightarrow>
          (None,
           [StError (''Error: Song list file '' @ quoted file_path @ '' not found.''),
            StInfo (''Please make sure '' @ quoted file_path
              @ '' is in the same directory as the script and contains your song list in JSON format.'')])
      | Malformed \<Rightarrow>
          (None,
           [StError (''Error: Could not decode JSON from '' @ quoted file_path
              @ ''. Please ensure it's a valid JSON file.''),
            StInfo (''The file should start with '[' and end with ']', with song objects ''
              @ quoted ''{...}'' @ '' separated by commas.'')])
      | Unreadable e \<Rightarrow>
          (None, [StError (''An unexpected error occurred while loading the data: '' @ e)])
      | Contents data \<Rightarrow> load_json file_path data)"

section \<open>Properties of the duration formatter\<close>

lemma digit_char_num [simp]:
  "digit_char 0 = CHR ''0''" "digit_char 1 = CHR ''1''" "digit_char 2 = CHR ''2''"
  "digit_char 3 = CHR ''3''" "digit_char 4 = CHR ''4''" "digit_char 5 = CHR ''5''"
  "digit_char 6 = CHR ''6''" "digit_char 7 = CHR ''7''" "digit_char 8 = CHR ''8''"
  "digit_char 9 = CHR ''9''" "digit_char (Suc 0) = CHR ''1''"
  by code_simp+

lemma is_digit_digit_char: "d < 10 \<Longrightarrow> is_digit (digit_char d)"
  by (simp add: is_digit_def digit_char_def)

lemma dec_one: "n < 10 \<Longrightarrow> dec n = [digit_char n]"
  by (simp add: dec.simps)

lemma dec_two: "10 \<le> n \<Longrightarrow> n < 100 \<Longrightarrow> dec n = [digit_char (n div 10), digit_char (n mod 10)]"
  by (subst dec.simps) (simp add: dec_one)

lemma dec_three: "100 \<le> n \<Longrightarrow> n < 1000 \<Longrightarrow>
  dec n = [digit_char (n div 100), digit_char (n div 10 mod 10), digit_char (n mod 10)]"
  by (subst dec.simps) (simp add: dec_two div_mult2_eq [symmetric])

lemma dec_digits: "\<forall>c \<in> set (dec n). is_digit c"
proof (induction n rule: dec.induct)
  case (1 n)
  show ?case
  proof (cases "n < 10")
    case True
    then show ?thesis by (simp add: dec_one is_digit_digit_char)
  next
    case False
    then have "dec n = dec (n div 10) @ [digit_char (n mod 10)]"
      by (subst dec.simps) simp
    moreover have "is_digit (digit_char (n mod 10))"
      by (rule is_digit_digit_char) simp
    ultimately show ?thesis using 1 False by auto
  qed
qed

lemma dec_nonempty: "dec n \<noteq> []"
  by (subst dec.simps) simp

lemma fmt02_two:
  "0 \<le> n \<Longrightarrow> n < 100 \<Longrightarrow> fmt02 n = [digit_char (nat n div 10), digit_char (nat n mod 10)]"
proof -
  assume a: "0 \<le> n" "n < 100"
  show ?thesis
  proof (cases "nat n < 10")
    case True
    then show ?thesis using a by (simp add: fmt02_def dec_one)
  next
    case False
    then have "dec (nat n) = [digit_char (nat n div 10), digit_char (nat n mod 10)]"
      using a by (intro dec_two) auto
    then show ?thesis using a by (simp add: fmt02_def)
  qed
qed

lemma fmt02_hd: "fmt02 n \<noteq> [] \<and> (is_digit (hd (fmt02 n)) \<or> hd (fmt02 n) = CHR ''-'')"
proof (cases "n < 0")
  case True
  then show ?thesis by (simp add: fmt02_def)
next
  case False
  have d: "is_digit (hd (dec (nat n)))"
    using dec_digits [of "nat n"] dec_nonempty [of "nat n"] by (cases "dec (nat n)") auto
  have z: "is_digit CHR ''0''" by (simp add: is_digit_def)
  show ?thesis
  proof (cases "2 - length (dec (nat n))")
    case 0
    then show ?thesis using False d dec_nonempty by (simp add: fmt02_def)
  next
    case (Suc k)
    then show ?thesis using False z by (simp add: fmt02_def)
  qed
qed

lemma body_int:
  "0 \<le> ms \<Longrightarrow> ms < 2 ^ 1024 - 2 ^ 970 \<Longrightarrow>
   songlength_body (NInt ms) = Inr (fmt02 (ms div 1000 div 60) @ '':'' @ fmt02 (ms div 1000 mod 60))"
proof -
  assume a: "0 \<le> ms" "ms < 2 ^ 1024 - 2 ^ 970"
  have f: "\<lfloor>(of_int ms :: rat) / 1000\<rfloor> = ms div 1000"
    using floor_divide_of_int_eq [of ms 1000, where ?'a = rat] by simp
  have p: "(0::rat) \<le> of_int ms / 1000" using a by simp
  from a have "py_float (NInt ms) = Inr (FFin (of_int ms))" by simp
  then show ?thesis using f p by (simp add: songlength_body_def Let_def)
qed

lemma format_int:
  "0 \<le> ms \<Longrightarrow> ms < 2 ^ 1024 - 2 ^ 970 \<Longrightarrow>
   format_songlength (PNum (NInt ms)) = fmt02 (ms div 1000 div 60) @ '':'' @ fmt02 (ms div 1000 mod 60)"
  by (simp add: body_int)

lemma body_head:
  "songlength_body n = Inr s \<Longrightarrow> s \<noteq> [] \<and> (is_digit (hd s) \<or> hd s = CHR ''-'')"
proof -
  assume "songlength_body n = Inr s"
  then obtain t where "s = fmt02 (t div 60) @ '':'' @ fmt02 (t mod 60)"
    by (auto simp: songlength_body_def Let_def split: sum.splits)
  then show ?thesis using fmt02_hd [of "t div 60"] by simp
qed

lemma body_error:
  "songlength_body n = Inl e \<Longrightarrow>
   (e = ValueError \<and> n = NFloat FNaN) \<or> e = OverflowError"
proof -
  assume a: "songlength_body n = Inl e"
  show ?thesis
  proof (cases "py_float n")
    case (Inl e')
    then have "e' = OverflowError" by (cases n) (auto split: if_splits)
    with a Inl show ?thesis by (simp add: songlength_body_def)
  next
    case (Inr f)
    with a have i: "py_int (float_div f 1000) = Inl e"
      by (simp add: songlength_body_def Let_def split: sum.splits)
    show ?thesis
    proof (cases f)
      case (FFin x) with i show ?thesis by simp
    next
      case FInf with i show ?thesis by auto
    next
      case FNegInf with i show ?thesis by auto
    next
      case FNaN
      with Inr have "n = NFloat FNaN" by (cases n) (auto split: if_splits)
      with i FNaN show ?thesis by auto
    qed
  qed
qed

lemma body_nan: "songlength_body (NFloat FNaN) = Inl ValueError"
  by (simp add: songlength_body_def)

lemma format_NA_iff:
  "format_songlength v = ''N/A'' \<longleftrightarrow> (case v of PNum n \<Rightarrow> num_lt_zero n | _ \<Rightarrow> True)"
proof (cases v)
  case (PNum n)
  show ?thesis
  proof (cases "num_lt_zero n")
    case True with PNum show ?thesis by simp
  next
    case False
    have "format_songlength (PNum n) \<noteq> ''N/A''"
    proof (cases "songlength_body n")
      case (Inl e)
      then show ?thesis using False by (simp add: on_exception_def)
    next
      case (Inr s)
      from body_head [OF Inr] have "s \<noteq> ''N/A''" by (auto simp: is_digit_def)
      then show ?thesis using False Inr by simp
    qed
    with PNum False show ?thesis by simp
  qed
qed simp_all

lemma format_Invalid_iff:
  "format_songlength v = ''Invalid'' \<longleftrightarrow> v = PNum (NFloat FNaN)"
proof (cases v)
  case (PNum n)
  show ?thesis
  proof (cases "num_lt_zero n")
    case True with PNum show ?thesis by auto
  next
    case False
    show ?thesis
    proof (cases "songlength_body n")
      case (Inl e)
      from body_error [OF Inl] show ?thesis using PNum False Inl body_nan
        by (auto simp: on_exception_def)
    next
      case (Inr s)
      from body_head [OF Inr] have "s \<noteq> ''Invalid''" by (auto simp: is_digit_def)
      moreover have "n \<noteq> NFloat FNaN" using Inr body_nan by auto
      ultimately show ?thesis using PNum False Inr by simp
    qed
  qed
qed simp_all

lemma floor_ms: "\<lfloor>(of_int k :: rat) / 1000\<rfloor> = k div 1000"
  using floor_divide_of_int_eq [of k 1000, where ?'a = rat] by simp

lemma format_finite:
  assumes "py_float n = Inr (FFin x)" and "0 \<le> x"
  shows "format_songlength (PNum n) =
           fmt02 (\<lfloor>x / 1000\<rfloor> div 60) @ '':'' @ fmt02 (\<lfloor>x / 1000\<rfloor> mod 60)"
proof -
  have "\<not> num_lt_zero n"
    using assms by (cases n) (auto split: if_splits)
  moreover have "songlength_body n =
      Inr (fmt02 (\<lfloor>x / 1000\<rfloor> div 60) @ '':'' @ fmt02 (\<lfloor>x / 1000\<rfloor> mod 60))"
    using assms by (simp add: songlength_body_def Let_def)
  ultimately show ?thesis by simp
qed

lemma format_digits:
  assumes "py_float n = Inr (FFin x)" and "0 \<le> x" and "x < 6000000"
  shows "format_songlength (PNum n) =
           [digit_char (nat (\<lfloor>x / 1000\<rfloor> div 60) div 10),
            digit_char (nat (\<lfloor>x / 1000\<rfloor> div 60) mod 10),
            CHR '':'',
            digit_char (nat (\<lfloor>x / 1000\<rfloor> mod 60) div 10),
            digit_char (nat (\<lfloor>x / 1000\<rfloor> mod 60) mod 10)]"
proof -
  define t where "t = \<lfloor>x / 1000\<rfloor>"
  have t0: "0 \<le> t" using assms(2) by (simp add: t_def)
  have "x / 1000 < 6000" using assms(3) by simp
  then have t1: "t < 6000" by (simp add: t_def floor_less_iff)
  have m: "0 \<le> t div 60" "t div 60 < 100" using t0 t1 by auto
  have s: "0 \<le> t mod 60" "t mod 60 < 100"
    using pos_mod_bound [of 60 t] by auto
  show ?thesis
    using format_finite [OF assms(1,2)] fmt02_two [OF m] fmt02_two [OF s]
    by (simp add: t_def)
qed

lemma matches_mmss_digits:
  "a < 100 \<Longrightarrow> b < 100 \<Longrightarrow>
   matches_mmss [digit_char (a div 10), digit_char (a mod 10), CHR '':'',
                 digit_char (b div 10), digit_char (b mod 10)]"
  by (simp add: is_digit_digit_char)

lemma format_six_million: "format_songlength (PNum (NInt 6000000)) = ''100:00''"
  using format_int [of 6000000] by (simp add: fmt02_def dec_three dec_one)

section \<open>The claims about the duration formatter\<close>

text \<open>
  C5, as the code has it. For every numeric value of at least 0 and below 6000000
  milliseconds (an \<open>int\<close>, a \<open>bool\<close> or a finite \<open>float\<close>, \<open>x\<close> being its value),
  \<open>format_songlength\<close> returns two digits of minutes, a colon and two digits of seconds,
  with minutes \<open>\<lfloor>x / 1000\<rfloor> div 60\<close> and seconds \<open>\<lfloor>x / 1000\<rfloor> mod 60\<close> and no rounding; the
  result has the shape \<open>\d{2}:\d{2}\<close>. In particular 65000 gives \<open>01:05\<close>, 0 gives
  \<open>00:00\<close> and 3599000 gives \<open>59:59\<close>.
\<close>

theorem format_songlength_mmss:
  "(py_float n = Inr (FFin x) \<and> 0 \<le> x \<and> x < 6000000 \<longrightarrow>
      format_songlength (PNum n) =
        [digit_char (nat (\<lfloor>x / 1000\<rfloor> div 60) div 10),
         digit_char (nat (\<lfloor>x / 1000\<rfloor> div 60) mod 10),
         CHR '':'',
         digit_char (nat (\<lfloor>x / 1000\<rfloor> mod 60) div 10),
         digit_char (nat (\<lfloor>x / 1000\<rfloor> mod 60) mod 10)]
      \<and> matches_mmss (format_songlength (PNum n)))
   \<and> format_songlength (PNum (NInt 65000)) = ''01:05''
   \<and> format_songlength (PNum (NInt 0)) = ''00:00''
   \<and> format_songlength (PNum (NInt 3599000)) = ''59:59''"
proof -
  have g: "format_songlength (PNum n) =
        [digit_char (nat (\<lfloor>x / 1000\<rfloor> div 60) div 10),
         digit_char (nat (\<lfloor>x / 1000\<rfloor> div 60) mod 10),
         CHR '':'',
         digit_char (nat (\<lfloor>x / 1000\<rfloor> mod 60) div 10),
         digit_char (nat (\<lfloor>x / 1000\<rfloor> mod 60) mod 10)]
      \<and> matches_mmss (format_songlength (PNum n))"
    if h: "py_float n = Inr (FFin x)" "0 \<le> x" "x < 6000000" for n x
  proof -
    define t where "t = \<lfloor>x / 1000\<rfloor>"
    have t0: "0 \<le> t" using h(2) by (simp add: t_def)
    have "x / 1000 < 6000" using h(3) by simp
    then have t1: "t < 6000" by (simp add: t_def floor_less_iff)
    have m: "nat (t div 60) < 100" using t0 t1 by auto
    have s: "nat (t mod 60) < 100" using pos_mod_bound [of 60 t] by auto
    show ?thesis
      using format_digits [OF h] matches_mmss_digits [OF m s]
      by (simp add: t_def del: format_songlength.simps)
  qed
  have e1: "format_songlength (PNum (NInt 65000)) = ''01:05''"
    using g [of "NInt 65000" 65000] floor_ms [of 65000] by (simp del: format_songlength.simps)
  have e2: "format_songlength (PNum (NInt 0)) = ''00:00''"
    using g [of "NInt 0" 0] by (simp del: format_songlength.simps)
  have e3: "format_songlength (PNum (NInt 3599000)) = ''59:59''"
    using g [of "NInt 3599000" 3599000] floor_ms [of 3599000]
    by (simp del: format_songlength.simps)
  show ?thesis using g [of n x] e1 e2 e3 by blast
qed

theorem format_songlength_mmss_witness:
  "py_float (NInt 125999) = Inr (FFin 125999) \<and> (0::rat) \<le> 125999 \<and> (125999::rat) < 6000000
   \<and> format_songlength (PNum (NInt 125999)) = ''02:05''
   \<and> matches_mmss (format_songlength (PNum (NInt 125999)))"
proof -
  have h: "py_float (NInt 125999) = Inr (FFin 125999)" by simp
  show ?thesis
    using h format_songlength_mmss [of "NInt 125999" 125999] floor_ms [of 125999]
    by (simp add: is_digit_def del: format_songlength.simps)
qed

text \<open>
  C5 as it is stated fails from 100 minutes on: 6000000 milliseconds are numeric and not
  negative, and the result \<open>100:00\<close> has three digits of minutes.
\<close>

theorem format_songlength_mmss_counterexample:
  "format_songlength (PNum (NInt 6000000)) = ''100:00''
   \<and> \<not> matches_mmss (format_songlength (PNum (NInt 6000000)))"
  unfolding format_six_million by simp

text \<open>
  C2, as the code has it. \<open>format_songlength\<close> returns \<open>N/A\<close> exactly for an input that is
  \<open>None\<close>, that is not an \<open>int\<close> or a \<open>float\<close> (every string, \<open>abc\<close> included) or
  that is a negative number: \<open>None\<close>, \<open>-5\<close> and \<open>abc\<close> all give \<open>N/A\<close>. The sentinel
  \<open>Invalid\<close> is distinct from it and is returned for one input only, the float NaN, whose
  conversion to whole seconds raises ValueError.
\<close>

theorem format_songlength_sentinels:
  "format_songlength PNone = ''N/A''
   \<and> format_songlength (PNum (NInt (- 5))) = ''N/A''
   \<and> format_songlength (PStr ''abc'') = ''N/A''
   \<and> (format_songlength v = ''N/A'' \<longleftrightarrow> (case v of PNum k \<Rightarrow> num_lt_zero k | _ \<Rightarrow> True))
   \<and> (format_songlength v = ''Invalid'' \<longleftrightarrow> v = PNum (NFloat FNaN))"
  using format_NA_iff [of v] format_Invalid_iff [of v] by simp

theorem format_songlength_sentinels_witness:
  "format_songlength (PNum (NFloat FNaN)) = ''Invalid''
   \<and> format_songlength (PNum (NFloat FNaN)) \<noteq> ''N/A''
   \<and> format_songlength (PStr ''abc'') = ''N/A''"
  using format_songlength_sentinels [of "PNum (NFloat FNaN)"] by simp

text \<open>
  C2 as it is stated fails at the string \<open>abc\<close>: it is no \<open>int\<close> or \<open>float\<close>, so the
  guard returns \<open>N/A\<close> before any conversion is tried.
\<close>

theorem format_songlength_abc_counterexample:
  "format_songlength (PStr ''abc'') \<noteq> ''Invalid''"
  by simp


section \<open>Properties of the frame operations and of the loader\<close>

lemma zip_map_filter: "map fst (filter snd (zip xs (map g xs))) = filter g xs"
  by (induction xs) auto

lemma rows_select_playlist:
  "rows (select_playlist df) = filter (\<lambda>r. cell_at r ''Playlist'' = CStr target_playlist) (rows df)"
proof -
  have "map (\<lambda>c. c = CStr target_playlist) (column df ''Playlist'')
        = map (\<lambda>r. cell_at r ''Playlist'' = CStr target_playlist) (rows df)"
    by (simp add: column_def)
  then show ?thesis by (simp add: select_playlist_def select_rows_def zip_map_filter)
qed

lemma columns_select_playlist: "columns (select_playlist df) = columns df"
  by (simp add: select_playlist_def select_rows_def)

lemma process_playlist_columns:
  "''Playlist'' \<in> set (columns (fst (process_playlist (df, msgs))))"
  by (simp add: process_playlist_def map_column_def add_column_def)

lemma process_playlist_msgs:
  "set msgs \<subseteq> set (snd (process_playlist (df, msgs)))"
  by (auto simp: process_playlist_def)

lemma process_playlist_frame:
  "fst (process_playlist (df, msgs)) = fst (process_playlist (df, msgs'))"
  by (simp add: process_playlist_def)

lemma process_playlist_keeps_columns:
  "set (columns df) \<subseteq> set (columns (fst (process_playlist (df, msgs))))"
  by (auto simp: process_playlist_def map_column_def add_column_def)

text \<open>The KeyError branch of the loader is never taken: a list always loads.\<close>

lemma load_list_Some:
  "load_list p data =
     (Some (select_playlist (fst (process_playlist (read_frame p data)))),
      snd (process_playlist (read_frame p data)))"
proof -
  obtain df1 m1 where r: "read_frame p data = (df1, m1)" by (cases "read_frame p data")
  obtain df2 m2 where q: "process_playlist (df1, m1) = (df2, m2)"
    by (cases "process_playlist (df1, m1)")
  have "''Playlist'' \<in> set (columns df2)"
    using process_playlist_columns [of df1 m1] q by simp
  then show ?thesis using r q by (simp add: load_list_def)
qed

lemma ensure_column_frame:
  "fst (ensure_column (df, m, ms) c) = fst (ensure_column (df, m', ms') c)"
  by (simp add: ensure_column_def split: option.splits)

lemma ensure_column_msgs:
  "set m \<subseteq> set (fst (snd (ensure_column (df, m, ms) c)))"
  by (auto simp: ensure_column_def split: option.splits)

lemma foldl_ensure_frame:
  "fst (foldl ensure_column (df, m, ms) cs) = fst (foldl ensure_column (df, m', ms') cs)"
proof (induction cs arbitrary: df m ms m' ms')
  case Nil
  show ?case by simp
next
  case (Cons c cs)
  obtain d1 a1 b1 where s1: "ensure_column (df, m, ms) c = (d1, a1, b1)"
    by (cases "ensure_column (df, m, ms) c")
  obtain d2 a2 b2 where s2: "ensure_column (df, m', ms') c = (d2, a2, b2)"
    by (cases "ensure_column (df, m', ms') c")
  have "d1 = d2" using ensure_column_frame [of df m ms c m' ms'] s1 s2 by simp
  then show ?case using s1 s2 Cons.IH [of d1 a1 b1 a2 b2] by simp
qed

lemma foldl_ensure_msgs:
  "set m \<subseteq> set (fst (snd (foldl ensure_column (df, m, ms) cs)))"
proof (induction cs arbitrary: df m ms)
  case Nil
  show ?case by simp
next
  case (Cons c cs)
  obtain d1 a1 b1 where s1: "ensure_column (df, m, ms) c = (d1, a1, b1)"
    by (cases "ensure_column (df, m, ms) c")
  have "set m \<subseteq> set a1" using ensure_column_msgs [of m df ms c] s1 by simp
  moreover have "set a1 \<subseteq> set (fst (snd (foldl ensure_column (d1, a1, b1) cs)))"
    by (rule Cons.IH)
  ultimately show ?case using s1 by auto
qed

lemma dict_items_filter: "dict_items (filter is_dict data) = dict_items data"
  by (induction data rule: dict_items.induct) auto

lemma list_all_filter_is_dict: "list_all is_dict (filter is_dict data)"
  by (simp add: list_all_iff)

text \<open>The frame of \<open>read_frame\<close> is the fold over the required columns, whatever the messages.\<close>

lemma read_frame_fold:
  "fst (read_frame p data)
   = fst (foldl ensure_column (DataFrame (dict_items data), m, []) required_cols)"
proof -
  let ?d = "DataFrame (dict_items data)"
  let ?m0 = "if \<not> list_all is_dict data
             then [StWarning (''Warning: Some items in '' @ p
                     @ '' are not dictionaries (songs). Skipping non-dictionary items.'')]
             else []"
  obtain d1 a1 b1 where s: "foldl ensure_column (?d, ?m0, []) required_cols = (d1, a1, b1)"
    by (cases "foldl ensure_column (?d, ?m0, []) required_cols")
  have "fst (read_frame p data) = d1"
    unfolding read_frame_def Let_def s by simp
  moreover have "d1 = fst (foldl ensure_column (?d, m, []) required_cols)"
    using foldl_ensure_frame [of ?d ?m0 "[]" required_cols m "[]"] s by simp
  ultimately show ?thesis by simp
qed

lemma read_frame_frame:
  "fst (read_frame p (filter is_dict data)) = fst (read_frame p data)"
  using read_frame_fold [of p "filter is_dict data" "[]"] read_frame_fold [of p data "[]"]
  by (simp add: dict_items_filter)

lemma read_frame_warning:
  assumes "\<not> list_all is_dict data"
  shows "StWarning (''Warning: Some items in '' @ p
            @ '' are not dictionaries (songs). Skipping non-dictionary items.'')
         \<in> set (snd (read_frame p data))"
proof -
  let ?d = "DataFrame (dict_items data)"
  let ?w = "StWarning (''Warning: Some items in '' @ p
                     @ '' are not dictionaries (songs). Skipping non-dictionary items.'')"
  obtain d1 a1 b1 where s: "foldl ensure_column (?d, [?w], []) required_cols = (d1, a1, b1)"
    by (cases "foldl ensure_column (?d, [?w], []) required_cols")
  have "?w \<in> set a1" using foldl_ensure_msgs [of "[?w]" ?d "[]" required_cols] s by simp
  then show ?thesis using assms s unfolding read_frame_def Let_def by simp
qed

lemma load_list_frame:
  "fst (load_list p (filter is_dict data)) = fst (load_list p data)"
proof -
  obtain d1 a1 where r1: "read_frame p data = (d1, a1)" by (cases "read_frame p data")
  obtain d2 a2 where r2: "read_frame p (filter is_dict data) = (d2, a2)"
    by (cases "read_frame p (filter is_dict data)")
  have "d2 = d1" using read_frame_frame [of p data] r1 r2 by simp
  then show ?thesis
    using r1 r2 process_playlist_frame [of d1 a1 a2] by (simp add: load_list_Some)
qed

lemma load_list_warning:
  assumes "\<not> list_all is_dict data"
  shows "StWarning (''Warning: Some items in '' @ p
            @ '' are not dictionaries (songs). Skipping non-dictionary items.'')
         \<in> set (snd (load_list p data))"
proof -
  obtain d1 a1 where r1: "read_frame p data = (d1, a1)" by (cases "read_frame p data")
  show ?thesis
    using read_frame_warning [OF assms, of p] r1 process_playlist_msgs [of a1 d1]
    by (auto simp: load_list_Some)
qed

text \<open>A loaded frame comes from a list, and has the five required columns.\<close>

lemma load_song_data_Some:
  assumes "load_song_data fs p = (Some df, msgs)"
  shows "\<exists>data. fs p = Contents (JList data) \<and> load_list p data = (Some df, msgs)"
proof (cases "fs p")
  case (Contents j)
  show ?thesis
  proof (cases j)
    case (JList data)
    then show ?thesis using assms Contents by (simp add: load_song_data_def load_json_def)
  next
    case (JOther t)
    then show ?thesis using assms Contents by (simp add: load_song_data_def load_json_def)
  qed
qed (use assms in \<open>simp_all add: load_song_data_def\<close>)

lemma find_lower_in:
  "find (\<lambda>e. py_lower e = py_lower col) cs = Some x \<Longrightarrow> x \<in> set cs \<and> py_lower x = py_lower col"
  by (induction cs) (auto split: if_splits)

lemma ensure_column_has: "col \<in> set (columns (fst (ensure_column (df, m, ms) col)))"
  by (auto simp: ensure_column_def rename_column_def add_column_def
      split: option.splits dest: find_lower_in)

lemma ensure_column_keeps:
  assumes "c \<in> set (columns df)" and "py_lower c = py_lower col \<longrightarrow> c = col"
  shows "c \<in> set (columns (fst (ensure_column (df, m, ms) col)))"
proof (cases "col \<in> set (columns df)")
  case True
  then show ?thesis using assms by (simp add: ensure_column_def)
next
  case False
  show ?thesis
  proof (cases "find (\<lambda>e. py_lower e = py_lower col) (columns df)")
    case None
    then show ?thesis using False assms by (simp add: ensure_column_def add_column_def)
  next
    case (Some x)
    from find_lower_in [OF Some] have x: "py_lower x = py_lower col" by simp
    have "c \<noteq> x" using assms x False by auto
    then show ?thesis using False Some assms
      by (auto simp: ensure_column_def rename_column_def)
  qed
qed

lemma lower_required:
  "py_lower ''Name'' = ''name''" "py_lower ''Artist'' = ''artist''"
  "py_lower ''Playlist'' = ''playlist''" "py_lower ''Year'' = ''year''"
  "py_lower ''songlength'' = ''songlength''"
  by code_simp+

lemma foldl_ensure_required:
  "set required_cols \<subseteq> set (columns (fst (foldl ensure_column (df, m, ms) required_cols)))"
proof -
  obtain d1 a1 b1 where s1: "ensure_column (df, m, ms) ''Name'' = (d1, a1, b1)"
    by (cases "ensure_column (df, m, ms) ''Name''")
  obtain d2 a2 b2 where s2: "ensure_column (d1, a1, b1) ''Artist'' = (d2, a2, b2)"
    by (cases "ensure_column (d1, a1, b1) ''Artist''")
  obtain d3 a3 b3 where s3: "ensure_column (d2, a2, b2) ''Playlist'' = (d3, a3, b3)"
    by (cases "ensure_column (d2, a2, b2) ''Playlist''")
  obtain d4 a4 b4 where s4: "ensure_column (d3, a3, b3) ''Year'' = (d4, a4, b4)"
    by (cases "ensure_column (d3, a3, b3) ''Year''")
  obtain d5 a5 b5 where s5: "ensure_column (d4, a4, b4) ''songlength'' = (d5, a5, b5)"
    by (cases "ensure_column (d4, a4, b4) ''songlength''")
  have h1: "''Name'' \<in> set (columns d1)" using ensure_column_has [of "''Name''" df m ms] s1 by simp
  have h2: "''Artist'' \<in> set (columns d2)"
    using ensure_column_has [of "''Artist''" d1 a1 b1] s2 by simp
  have h3: "''Playlist'' \<in> set (columns d3)"
    using ensure_column_has [of "''Playlist''" d2 a2 b2] s3 by simp
  have h4: "''Year'' \<in> set (columns d4)"
    using ensure_column_has [of "''Year''" d3 a3 b3] s4 by simp
  have h5: "''songlength'' \<in> set (columns d5)"
    using ensure_column_has [of "''songlength''" d4 a4 b4] s5 by simp
  have k2: "''Name'' \<in> set (columns d2)"
    using ensure_column_keeps [OF h1, of "''Artist''" a1 b1] s2 by (simp add: lower_required)
  have k3: "''Name'' \<in> set (columns d3)" "''Artist'' \<in> set (columns d3)"
    using ensure_column_keeps [OF k2, of "''Playlist''" a2 b2]
      ensure_column_keeps [OF h2, of "''Playlist''" a2 b2] s3 by (simp_all add: lower_required)
  have k4: "''Name'' \<in> set (columns d4)" "''Artist'' \<in> set (columns d4)"
    "''Playlist'' \<in> set (columns d4)"
    using ensure_column_keeps [OF k3(1), of "''Year''" a3 b3]
      ensure_column_keeps [OF k3(2), of "''Year''" a3 b3]
      ensure_column_keeps [OF h3, of "''Year''" a3 b3] s4 by (simp_all add: lower_required)
  have k5: "''Name'' \<in> set (columns d5)" "''Artist'' \<in> set (columns d5)"
    "''Playlist'' \<in> set (columns d5)" "''Year'' \<in> set (columns d5)"
    using ensure_column_keeps [OF k4(1), of "''songlength''" a4 b4]
      ensure_column_keeps [OF k4(2), of "''songlength''" a4 b4]
      ensure_column_keeps [OF k4(3), of "''songlength''" a4 b4]
      ensure_column_keeps [OF h4, of "''songlength''" a4 b4] s5 by (simp_all add: lower_required)
  show ?thesis using s1 s2 s3 s4 s5 h5 k5 by (simp add: required_cols_def)
qed

lemma read_frame_required: "set required_cols \<subseteq> set (columns (fst (read_frame p data)))"
  using read_frame_fold [of p data "[]"]
    foldl_ensure_required [of "DataFrame (dict_items data)" "[]" "[]"] by simp

lemma load_list_required:
  "load_list p data = (Some df, msgs) \<Longrightarrow> set required_cols \<subseteq> set (columns df)"
proof -
  assume a: "load_list p data = (Some df, msgs)"
  obtain d1 a1 where r: "read_frame p data = (d1, a1)" by (cases "read_frame p data")
  have "df = select_playlist (fst (process_playlist (d1, a1)))"
    using a r by (simp add: load_list_Some)
  then show ?thesis
    using read_frame_required [of p data] r process_playlist_keeps_columns [of d1 a1]
    by (auto simp: columns_select_playlist)
qed

lemma load_song_data_required:
  assumes "load_song_data fs p = (Some df, msgs)"
  shows "''Name'' \<in> set (columns df)" and "''Artist'' \<in> set (columns df)"
proof -
  from load_song_data_Some [OF assms] obtain data where "load_list p data = (Some df, msgs)"
    by blast
  from load_list_required [OF this]
  show "''Name'' \<in> set (columns df)" and "''Artist'' \<in> set (columns df)"
    by (simp_all add: required_cols_def)
qed

text \<open>Every row of a frame that \<open>read_frame\<close> builds has exactly the columns of the frame.\<close>

lemma DataFrame_wf: "\<forall>r \<in> set (rows (DataFrame d)). map fst r = columns (DataFrame d)"
  by (auto simp: DataFrame_def Let_def comp_def)

lemma map_fst_rename: "map fst (map (\<lambda>(k, v). (g k, v)) r) = map g (map fst r)"
  by (induction r) auto

lemma rename_column_wf:
  assumes "\<forall>r \<in> set (rows df). map fst r = columns df"
  shows "\<forall>r \<in> set (rows (rename_column old new df)). map fst r = columns (rename_column old new df)"
proof
  fix r assume "r \<in> set (rows (rename_column old new df))"
  then obtain r0 where r0: "r0 \<in> set (rows df)"
    and r: "r = map (\<lambda>(k, v). (if k = old then new else k, v)) r0"
    by (auto simp: rename_column_def)
  have "map fst r = map (\<lambda>c. if c = old then new else c) (map fst r0)"
    unfolding r by (rule map_fst_rename)
  then show "map fst r = columns (rename_column old new df)"
    using assms r0 by (simp add: rename_column_def)
qed

lemma add_column_wf:
  assumes "\<forall>r \<in> set (rows df). map fst r = columns df"
  shows "\<forall>r \<in> set (rows (add_column c v df)). map fst r = columns (add_column c v df)"
  using assms by (auto simp: add_column_def)

lemma ensure_column_wf:
  assumes "\<forall>r \<in> set (rows df). map fst r = columns df"
  shows "\<forall>r \<in> set (rows (fst (ensure_column (df, m, ms) c))).
           map fst r = columns (fst (ensure_column (df, m, ms) c))"
  using assms rename_column_wf [OF assms] add_column_wf [OF assms]
  by (simp add: ensure_column_def split: option.splits)

lemma foldl_ensure_wf:
  "\<forall>r \<in> set (rows df). map fst r = columns df \<Longrightarrow>
   \<forall>r \<in> set (rows (fst (foldl ensure_column (df, m, ms) cs))).
           map fst r = columns (fst (foldl ensure_column (df, m, ms) cs))"
proof (induction cs arbitrary: df m ms)
  case Nil
  then show ?case by simp
next
  case (Cons c cs)
  obtain d1 a1 b1 where s1: "ensure_column (df, m, ms) c = (d1, a1, b1)"
    by (cases "ensure_column (df, m, ms) c")
  have "\<forall>r \<in> set (rows d1). map fst r = columns d1"
    using ensure_column_wf [OF Cons.prems, of m ms c] s1 by simp
  from Cons.IH [OF this, of a1 b1] show ?case using s1 by simp
qed

lemma read_frame_wf:
  "\<forall>r \<in> set (rows (fst (read_frame p data))). map fst r = columns (fst (read_frame p data))"
  using read_frame_fold [of p data "[]"]
    foldl_ensure_wf [OF DataFrame_wf, of "dict_items data" "[]" "[]" required_cols] by simp

lemma cell_at_map_cell:
  "c \<in> fst ` set r \<Longrightarrow> cell_at (map_cell c f r) c = f (cell_at r c)"
proof (induction r)
  case Nil
  then show ?case by simp
next
  case (Cons a r)
  obtain k v where a: "a = (k, v)" by (cases a)
  show ?case
  proof (cases "k = c")
    case True
    then show ?thesis using a by (simp add: cell_at_def map_cell_def)
  next
    case False
    then have "c \<in> fst ` set r" using Cons.prems a by auto
    from Cons.IH [OF this] show ?thesis using False a by (simp add: cell_at_def map_cell_def)
  qed
qed

lemma dict_items_comprehension: "dict_items data = [d. Dict d \<leftarrow> data]"
  by (induction data rule: dict_items.induct) auto

lemma map_of_tabulate: "c \<in> set cols \<Longrightarrow> map_of (map (\<lambda>k. (k, f k)) cols) c = Some (f c)"
  by (induction cols) auto

lemma set_first_seen: "set (first_seen ks) = set ks"
  by (simp add: first_seen_def)

lemma DataFrame_length: "length (rows (DataFrame ds)) = length ds"
  by (simp add: DataFrame_def Let_def)

lemma DataFrame_cell:
  assumes "i < length ds" and "map_of (ds ! i) c = Some v"
  shows "c \<in> set (columns (DataFrame ds))"
    and "cell_at (rows (DataFrame ds) ! i) c = cell_of v"
proof -
  have "(c, v) \<in> set (ds ! i)" using assms(2) by (rule map_of_SomeD)
  then have "c \<in> set (map fst (ds ! i))" by force
  moreover have "map fst (ds ! i) \<in> set (map (map fst) ds)" using assms(1) by simp
  ultimately have "c \<in> set (concat (map (map fst) ds))" unfolding set_concat by blast
  then show m: "c \<in> set (columns (DataFrame ds))"
    by (simp add: DataFrame_def Let_def set_first_seen)
  then have "c \<in> set (first_seen (concat (map (map fst) ds)))"
    by (simp add: DataFrame_def Let_def)
  from map_of_tabulate [OF this,
      of "\<lambda>k. case map_of (ds ! i) k of Some x \<Rightarrow> cell_of x | None \<Rightarrow> CNaN"]
  show "cell_at (rows (DataFrame ds) ! i) c = cell_of v"
    using assms by (simp add: DataFrame_def Let_def cell_at_def)
qed

lemma cell_at_rename:
  "c \<noteq> old \<Longrightarrow> c \<noteq> new \<Longrightarrow>
   cell_at (map (\<lambda>(k, v). (if k = old then new else k, v)) r) c = cell_at r c"
  by (induction r) (auto simp: cell_at_def)

lemma cell_at_append_other: "c \<noteq> k \<Longrightarrow> cell_at (r @ [(k, v)]) c = cell_at r c"
  by (induction r) (auto simp: cell_at_def)

lemma cell_at_map_cell_other: "c \<noteq> k \<Longrightarrow> cell_at (map_cell k f r) c = cell_at r c"
  by (induction r) (auto simp: cell_at_def map_cell_def)

lemma ensure_column_length:
  "length (rows (fst (ensure_column (df, m, ms) col))) = length (rows df)"
  by (simp add: ensure_column_def rename_column_def add_column_def split: option.splits)

lemma ensure_column_cell:
  assumes "c \<in> set (columns df)" and "py_lower c = py_lower col \<longrightarrow> c = col"
    and "i < length (rows df)"
  shows "cell_at (rows (fst (ensure_column (df, m, ms) col)) ! i) c = cell_at (rows df ! i) c"
proof (cases "col \<in> set (columns df)")
  case True
  then show ?thesis by (simp add: ensure_column_def)
next
  case False
  then have ne: "c \<noteq> col" using assms(1) by auto
  show ?thesis
  proof (cases "find (\<lambda>e. py_lower e = py_lower col) (columns df)")
    case None
    then show ?thesis using False assms(3) ne
      by (simp add: ensure_column_def add_column_def cell_at_append_other)
  next
    case (Some x)
    from find_lower_in [OF Some] have "py_lower x = py_lower col" by simp
    then have "c \<noteq> x" using assms(2) ne by auto
    then show ?thesis using False Some assms(3) ne
      by (simp add: ensure_column_def rename_column_def cell_at_rename)
  qed
qed

lemma foldl_ensure_length:
  "length (rows (fst (foldl ensure_column (df, m, ms) cs))) = length (rows df)"
proof (induction cs arbitrary: df m ms)
  case Nil
  show ?case by simp
next
  case (Cons col cs)
  obtain d1 a1 b1 where s1: "ensure_column (df, m, ms) col = (d1, a1, b1)"
    by (cases "ensure_column (df, m, ms) col")
  have "length (rows d1) = length (rows df)"
    using ensure_column_length [of df m ms col] s1 by simp
  then show ?case using s1 Cons.IH [of d1 a1 b1] by simp
qed

lemma foldl_ensure_cell:
  assumes "c \<in> set (columns df)"
    and "\<forall>col \<in> set cs. py_lower c = py_lower col \<longrightarrow> c = col"
    and "i < length (rows df)"
  shows "cell_at (rows (fst (foldl ensure_column (df, m, ms) cs)) ! i) c = cell_at (rows df ! i) c"
  using assms
proof (induction cs arbitrary: df m ms)
  case Nil
  show ?case by simp
next
  case (Cons col cs)
  obtain d1 a1 b1 where s1: "ensure_column (df, m, ms) col = (d1, a1, b1)"
    by (cases "ensure_column (df, m, ms) col")
  have l: "py_lower c = py_lower col \<longrightarrow> c = col" using Cons.prems(2) by simp
  have k: "c \<in> set (columns d1)"
    using ensure_column_keeps [OF Cons.prems(1) l, of m ms] s1 by simp
  have n: "i < length (rows d1)"
    using ensure_column_length [of df m ms col] s1 Cons.prems(3) by simp
  have e: "cell_at (rows d1 ! i) c = cell_at (rows df ! i) c"
    using ensure_column_cell [OF Cons.prems(1) l Cons.prems(3), of m ms] s1 by simp
  have "\<forall>col \<in> set cs. py_lower c = py_lower col \<longrightarrow> c = col" using Cons.prems(2) by simp
  from Cons.IH [OF k this n, of a1 b1] show ?case using s1 e by simp
qed

lemma required_lower_distinct:
  assumes "c \<in> set required_cols"
  shows "\<forall>col \<in> set required_cols. py_lower c = py_lower col \<longrightarrow> c = col"
  using assms by (auto simp: required_cols_def lower_required)

text \<open>
  The frame that \<open>read_frame\<close> builds has one row for every dict of the list, in order, and
  a required column holds what the dict has under that key.
\<close>

lemma read_frame_length:
  "length (rows (fst (read_frame p data))) = length (dict_items data)"
  using read_frame_fold [of p data "[]"]
    foldl_ensure_length [of "DataFrame (dict_items data)" "[]" "[]" required_cols]
  by (simp add: DataFrame_length)

lemma read_frame_cell:
  assumes "i < length (dict_items data)" and "c \<in> set required_cols"
    and "map_of (dict_items data ! i) c = Some v"
  shows "cell_at (rows (fst (read_frame p data)) ! i) c = cell_of v"
proof -
  let ?d = "DataFrame (dict_items data)"
  have i: "i < length (rows ?d)" using assms(1) by (simp add: DataFrame_length)
  from foldl_ensure_cell [OF DataFrame_cell(1) [OF assms(1,3)] required_lower_distinct [OF assms(2)] i,
      of "[]" "[]"]
  show ?thesis
    using read_frame_fold [of p data "[]"] DataFrame_cell(2) [OF assms(1,3)] by simp
qed

lemma process_playlist_length:
  "length (rows (fst (process_playlist (df, msgs)))) = length (rows df)"
  by (simp add: process_playlist_def map_column_def add_column_def)

lemma process_playlist_cell_other:
  assumes "c \<noteq> ''Playlist''" and "i < length (rows df)"
  shows "cell_at (rows (fst (process_playlist (df, msgs))) ! i) c = cell_at (rows df ! i) c"
  using assms
  by (simp add: process_playlist_def map_column_def add_column_def
      cell_at_map_cell_other cell_at_append_other)

lemma process_playlist_tag:
  assumes "''Playlist'' \<in> set (columns df)"
    and "\<forall>r \<in> set (rows df). map fst r = columns df"
    and "i < length (rows df)" and "notna (cell_at (rows df ! i) ''Playlist'')"
  shows "cell_at (rows (fst (process_playlist (df, msgs))) ! i) ''Playlist''
         = playlist_tag (cell_at (rows df ! i) ''Playlist'')"
proof -
  have "cell_at (rows df ! i) ''Playlist'' \<in> set (column df ''Playlist'')"
    using assms(3) by (simp add: column_def)
  then have "list_ex notna (column df ''Playlist'')"
    using assms(4) unfolding list_ex_iff by blast
  then have p: "fst (process_playlist (df, msgs)) = map_column ''Playlist'' playlist_tag df"
    using assms(1) by (simp add: process_playlist_def)
  have "map fst (rows df ! i) = columns df" using assms(2,3) by simp
  then have "''Playlist'' \<in> fst ` set (rows df ! i)" using assms(1) by (metis set_map)
  from cell_at_map_cell [OF this, of playlist_tag]
  show ?thesis using p assms(3) by (simp add: map_column_def)
qed

section \<open>The claims about the loader\<close>

lemma load_bonus_example:
  "load_json SONGLIST_FILE
     (JList [Dict [(''Playlist'', JStr (''guitar hero 3'' @ backslash # ''bonus''))]])
   = (Some \<lparr>columns = [''Playlist'', ''Name'', ''Artist'', ''Year'', ''songlength''],
             rows = [[(''Playlist'', CStr ''guitar hero 3''), (''Name'', CNone),
                      (''Artist'', CNone), (''Year'', CNone), (''songlength'', CNone)]]\<rparr>,
      [StWarning (''Warning: Column(s) ['Name', 'Artist', 'Year', 'songlength'] not found in ''
                  @ ''songs.json. They will be shown as empty.'')])"
  by code_simp

lemma load_rock_band_example:
  "load_json SONGLIST_FILE (JList [Dict [(''Playlist'', JStr ''rock band'')]])
   = (Some \<lparr>columns = [''Playlist'', ''Name'', ''Artist'', ''Year'', ''songlength''], rows = []\<rparr>,
      [StWarning (''Warning: Column(s) ['Name', 'Artist', 'Year', 'songlength'] not found in ''
                  @ ''songs.json. They will be shown as empty.'')])"
  by code_simp

text \<open>
  C4. Every record of a dataset that \<open>load_song_data\<close> returns has the playlist tag
  \<open>guitar hero 3\<close>, compared as strings. The record with the raw playlist
  \<open>guitar hero 3\bonus\<close> is kept with the tag \<open>guitar hero 3\<close>, the part before the
  first backslash; the record with the raw playlist \<open>rock band\<close> is left out.
\<close>

theorem load_keeps_target_playlist:
  "(load_song_data fs p = (Some df, msgs) \<longrightarrow>
      (\<forall>r \<in> set (rows df). cell_at r ''Playlist'' = CStr ''guitar hero 3''))
   \<and> fst (load_json SONGLIST_FILE
          (JList [Dict [(''Playlist'', JStr (''guitar hero 3'' @ backslash # ''bonus''))]]))
      = Some \<lparr>columns = [''Playlist'', ''Name'', ''Artist'', ''Year'', ''songlength''],
               rows = [[(''Playlist'', CStr ''guitar hero 3''), (''Name'', CNone),
                        (''Artist'', CNone), (''Year'', CNone), (''songlength'', CNone)]]\<rparr>
   \<and> fst (load_json SONGLIST_FILE (JList [Dict [(''Playlist'', JStr ''rock band'')]]))
      = Some \<lparr>columns = [''Playlist'', ''Name'', ''Artist'', ''Year'', ''songlength''], rows = []\<rparr>"
proof -
  have g: "\<forall>r \<in> set (rows df). cell_at r ''Playlist'' = CStr ''guitar hero 3''"
    if h: "load_song_data fs p = (Some df, msgs)"
  proof -
    from load_song_data_Some [OF h] obtain data where "load_list p data = (Some df, msgs)"
      by blast
    then have "df = select_playlist (fst (process_playlist (read_frame p data)))"
      by (simp add: load_list_Some)
    then show ?thesis by (simp add: rows_select_playlist target_playlist_def)
  qed
  have e1: "fst (load_json SONGLIST_FILE
          (JList [Dict [(''Playlist'', JStr (''guitar hero 3'' @ backslash # ''bonus''))]]))
      = Some \<lparr>columns = [''Playlist'', ''Name'', ''Artist'', ''Year'', ''songlength''],
               rows = [[(''Playlist'', CStr ''guitar hero 3''), (''Name'', CNone),
                        (''Artist'', CNone), (''Year'', CNone), (''songlength'', CNone)]]\<rparr>"
    unfolding load_bonus_example by simp
  have e2: "fst (load_json SONGLIST_FILE (JList [Dict [(''Playlist'', JStr ''rock band'')]]))
      = Some \<lparr>columns = [''Playlist'', ''Name'', ''Artist'', ''Year'', ''songlength''], rows = []\<rparr>"
    unfolding load_rock_band_example by simp
  show ?thesis using g e1 e2 by blast
qed

theorem load_keeps_target_playlist_witness:
  "load_song_data (\<lambda>f. Contents (JList [Dict [(''Playlist'', JStr (''guitar hero 3'' @ backslash # ''bonus''))]]))
       SONGLIST_FILE
     = (Some \<lparr>columns = [''Playlist'', ''Name'', ''Artist'', ''Year'', ''songlength''],
             rows = [[(''Playlist'', CStr ''guitar hero 3''), (''Name'', CNone),
                      (''Artist'', CNone), (''Year'', CNone), (''songlength'', CNone)]]\<rparr>,
      [StWarning (''Warning: Column(s) ['Name', 'Artist', 'Year', 'songlength'] not found in ''
                  @ ''songs.json. They will be shown as empty.'')])
   \<and> cell_at [(''Playlist'', CStr ''guitar hero 3''), (''Name'', CNone),
                (''Artist'', CNone), (''Year'', CNone), (''songlength'', CNone)] ''Playlist''
      = CStr ''guitar hero 3''"
proof -
  have h: "load_song_data (\<lambda>f. Contents (JList [Dict [(''Playlist'', JStr (''guitar hero 3'' @ backslash # ''bonus''))]]))
       SONGLIST_FILE
     = (Some \<lparr>columns = [''Playlist'', ''Name'', ''Artist'', ''Year'', ''songlength''],
             rows = [[(''Playlist'', CStr ''guitar hero 3''), (''Name'', CNone),
                      (''Artist'', CNone), (''Year'', CNone), (''songlength'', CNone)]]\<rparr>,
      [StWarning (''Warning: Column(s) ['Name', 'Artist', 'Year', 'songlength'] not found in ''
                  @ ''songs.json. They will be shown as empty.'')])"
    using load_bonus_example by (simp add: load_song_data_def)
  show ?thesis
    using h load_keeps_target_playlist [of "\<lambda>f. Contents (JList [Dict [(''Playlist'', JStr (''guitar hero 3'' @ backslash # ''bonus''))]])"
        SONGLIST_FILE
        "\<lparr>columns = [''Playlist'', ''Name'', ''Artist'', ''Year'', ''songlength''],
             rows = [[(''Playlist'', CStr ''guitar hero 3''), (''Name'', CNone),
                      (''Artist'', CNone), (''Year'', CNone), (''songlength'', CNone)]]\<rparr>"
        "[StWarning (''Warning: Column(s) ['Name', 'Artist', 'Year', 'songlength'] not found in ''
                  @ ''songs.json. They will be shown as empty.'')]"]
    by simp
qed

text \<open>
  C6. When the file holds valid JSON whose top-level value is not a list, \<open>load_song_data\<close>
  fails: it returns \<open>None\<close>, so no rows, and reports one error that names the class found.
\<close>

theorem load_non_list_fails:
  "fs p = Contents (JOther t) \<Longrightarrow>
   load_song_data fs p =
     (None, [StError (''Error: Expected a JSON list (array) in '' @ p
               @ '', but found '' @ type_repr t @ ''.'')])"
  by (simp add: load_song_data_def load_json_def)

theorem load_non_list_fails_witness:
  "(\<lambda>f. Contents (JOther Class_dict)) SONGLIST_FILE = Contents (JOther Class_dict)
   \<and> load_song_data (\<lambda>f. Contents (JOther Class_dict)) SONGLIST_FILE =
     (None, [StError (''Error: Expected a JSON list (array) in songs.json, but found ''
                      @ ''<class 'dict'>.'')])"
  using load_non_list_fails [of "\<lambda>f. Contents (JOther Class_dict)" SONGLIST_FILE Class_dict]
  by (simp add: SONGLIST_FILE_def type_repr_def quoted_def)

text \<open>
  C7. When the file holds a list with at least one item that is not a dict,
  \<open>load_song_data\<close> succeeds and the warning about the skipped items is among its
  messages. The dataset is the one that the dict items alone give. It is made of one record
  for every dict item and none for the others, in the order of the list: of these records
  \<open>rs\<close> the dataset keeps those with the playlist tag \<open>guitar hero 3\<close>; a record holds
  under \<open>Name\<close>, \<open>Artist\<close>, \<open>Year\<close> and \<open>songlength\<close> what its dict has under
  that key, and under \<open>Playlist\<close> the tag of the string its dict has there.
\<close>

theorem load_skips_non_dicts:
  assumes "fs p = Contents (JList data)" and "\<not> list_all is_dict data"
  shows "\<exists>df msgs rs.
           load_song_data fs p = (Some df, msgs)
           \<and> fst (load_song_data (fs(p := Contents (JList (filter is_dict data)))) p) = Some df
           \<and> StWarning (''Warning: Some items in '' @ p
                 @ '' are not dictionaries (songs). Skipping non-dictionary items.'') \<in> set msgs
           \<and> length rs = length [d. Dict d \<leftarrow> data]
           \<and> rows df = filter (\<lambda>r. cell_at r ''Playlist'' = CStr ''guitar hero 3'') rs
           \<and> (\<forall>i < length rs. \<forall>c v.
                 c \<in> {''Name'', ''Artist'', ''Year'', ''songlength''}
                 \<and> map_of ([d. Dict d \<leftarrow> data] ! i) c = Some v
                 \<longrightarrow> cell_at (rs ! i) c = cell_of v)
           \<and> (\<forall>i < length rs. \<forall>s.
                 map_of ([d. Dict d \<leftarrow> data] ! i) ''Playlist'' = Some (JStr s)
                 \<longrightarrow> cell_at (rs ! i) ''Playlist'' = playlist_tag (CStr s))"
proof -
  obtain df1 m1 where r: "read_frame p data = (df1, m1)" by (cases "read_frame p data")
  define df2 where "df2 = fst (process_playlist (df1, m1))"
  define msgs where "msgs = snd (process_playlist (df1, m1))"
  let ?ds = "[d. Dict d \<leftarrow> data]"
  have ds: "dict_items data = ?ds" by (rule dict_items_comprehension)
  have l: "load_song_data fs p = (Some (select_playlist df2), msgs)"
    using assms(1) r by (simp add: load_song_data_def load_json_def load_list_Some df2_def msgs_def)
  have f: "fst (load_song_data (fs(p := Contents (JList (filter is_dict data)))) p)
           = Some (select_playlist df2)"
  proof -
    have "fst (load_song_data (fs(p := Contents (JList (filter is_dict data)))) p)
          = fst (load_list p (filter is_dict data))"
      by (simp add: load_song_data_def load_json_def)
    also have "\<dots> = fst (load_list p data)" by (rule load_list_frame)
    also have "\<dots> = Some (select_playlist df2)"
      using r by (simp add: load_list_Some df2_def)
    finally show ?thesis .
  qed
  have w: "StWarning (''Warning: Some items in '' @ p
                 @ '' are not dictionaries (songs). Skipping non-dictionary items.'') \<in> set msgs"
    using load_list_warning [OF assms(2), of p] r by (simp add: load_list_Some msgs_def)
  have n1: "length (rows df1) = length ?ds"
    using read_frame_length [of p data] r ds by simp
  have n: "length (rows df2) = length ?ds"
    using process_playlist_length [of df1 m1] n1 by (simp add: df2_def)
  have sel: "rows (select_playlist df2)
             = filter (\<lambda>r. cell_at r ''Playlist'' = CStr ''guitar hero 3'') (rows df2)"
    by (simp add: rows_select_playlist target_playlist_def)
  have other: "cell_at (rows df2 ! i) c = cell_of v"
    if h: "i < length (rows df2)" "c \<in> {''Name'', ''Artist'', ''Year'', ''songlength''}"
      "map_of (?ds ! i) c = Some v" for i c v
  proof -
    have i: "i < length (dict_items data)" using h(1) n ds by simp
    have c: "c \<in> set required_cols" "c \<noteq> ''Playlist''"
      using h(2) by (auto simp: required_cols_def)
    have "cell_at (rows df1 ! i) c = cell_of v"
      using read_frame_cell [OF i c(1), of v p] h(3) ds r by simp
    moreover have "i < length (rows df1)" using h(1) n n1 by simp
    ultimately show ?thesis
      using process_playlist_cell_other [OF c(2), of i df1 m1] by (simp add: df2_def)
  qed
  have tag: "cell_at (rows df2 ! i) ''Playlist'' = playlist_tag (CStr s)"
    if h: "i < length (rows df2)" "map_of (?ds ! i) ''Playlist'' = Some (JStr s)" for i s
  proof -
    have i: "i < length (dict_items data)" using h(1) n ds by simp
    have c: "''Playlist'' \<in> set required_cols" by (simp add: required_cols_def)
    have e: "cell_at (rows df1 ! i) ''Playlist'' = CStr s"
      using read_frame_cell [OF i c, of "JStr s" p] h(2) ds r by simp
    have k: "''Playlist'' \<in> set (columns df1)"
      using read_frame_required [of p data] r c by auto
    have wf: "\<forall>r \<in> set (rows df1). map fst r = columns df1"
      using read_frame_wf [of p data] r by simp
    have i1: "i < length (rows df1)" using h(1) n n1 by simp
    have "notna (cell_at (rows df1 ! i) ''Playlist'')" using e by simp
    from process_playlist_tag [OF k wf i1 this, of m1]
    show ?thesis using e by (simp add: df2_def)
  qed
  show ?thesis
    apply (rule exI [of _ "select_playlist df2"])
    apply (rule exI [of _ msgs])
    apply (rule exI [of _ "rows df2"])
    using l f w n sel other tag by simp
qed

theorem load_skips_non_dicts_witness:
  "\<not> list_all is_dict [Dict [(''Name'', JStr ''One''), (''Playlist'', JStr ''guitar hero 3'')], NonDict]
   \<and> (\<exists>df msgs.
        load_song_data
          (\<lambda>f. Contents (JList [Dict [(''Name'', JStr ''One''), (''Playlist'', JStr ''guitar hero 3'')], NonDict]))
          ''songs.json'' = (Some df, msgs)
        \<and> StWarning (''Warning: Some items in songs.json are not dictionaries (songs). ''
                  @ ''Skipping non-dictionary items.'') \<in> set msgs
        \<and> map (\<lambda>r. cell_at r ''Name'') (rows df) = [CStr ''One''])"
proof -
  let ?data = "[Dict [(''Name'', JStr ''One''), (''Playlist'', JStr ''guitar hero 3'')], NonDict]"
  let ?ds = "[d. Dict d \<leftarrow> ?data]"
  have n: "\<not> list_all is_dict ?data" by simp
  have c: "(\<lambda>f. Contents (JList ?data)) ''songs.json'' = Contents (JList ?data)" by simp
  have ds: "?ds = [[(''Name'', JStr ''One''), (''Playlist'', JStr ''guitar hero 3'')]]"
    by simp
  have t: "playlist_tag (CStr ''guitar hero 3'') = CStr ''guitar hero 3''"
    by (simp add: playlist_tag_def replace_nan_def split_first_def backslash_def)
  note th = load_skips_non_dicts [of "\<lambda>f. Contents (JList ?data)" "''songs.json''" ?data, OF c n]
  from th obtain df msgs rs where
    l: "load_song_data (\<lambda>f. Contents (JList ?data)) ''songs.json'' = (Some df, msgs)"
    and rest: "StWarning (''Warning: Some items in '' @ ''songs.json''
                 @ '' are not dictionaries (songs). Skipping non-dictionary items.'') \<in> set msgs
           \<and> length rs = length ?ds
           \<and> rows df = filter (\<lambda>r. cell_at r ''Playlist'' = CStr ''guitar hero 3'') rs
           \<and> (\<forall>i < length rs. \<forall>c v.
                 c \<in> {''Name'', ''Artist'', ''Year'', ''songlength''}
                 \<and> map_of (?ds ! i) c = Some v
                 \<longrightarrow> cell_at (rs ! i) c = cell_of v)
           \<and> (\<forall>i < length rs. \<forall>s.
                 map_of (?ds ! i) ''Playlist'' = Some (JStr s)
                 \<longrightarrow> cell_at (rs ! i) ''Playlist'' = playlist_tag (CStr s))"
    by (elim exE conjE) (rule that, assumption, intro conjI, assumption+)
  note w = rest [THEN conjunct1]
  note len = rest [THEN conjunct2, THEN conjunct1]
  note sel = rest [THEN conjunct2, THEN conjunct2, THEN conjunct1]
  note other = rest [THEN conjunct2, THEN conjunct2, THEN conjunct2, THEN conjunct1]
  note tag = rest [THEN conjunct2, THEN conjunct2, THEN conjunct2, THEN conjunct2]
  have len1: "length rs = 1" using len by (simp only: ds list.size)
  then obtain r0 where rs: "rs = [r0]" by (cases rs) auto
  have i0: "(0::nat) < length rs" using len1 by simp
  have k: "map_of (?ds ! 0) ''Name'' = Some (JStr ''One'')"
    "map_of (?ds ! 0) ''Playlist'' = Some (JStr ''guitar hero 3'')"
    by simp_all
  have "cell_at (rs ! 0) ''Name'' = cell_of (JStr ''One'')"
    using other [rule_format, of 0 "''Name''" "JStr ''One''"] i0 k(1) by blast
  then have a: "cell_at r0 ''Name'' = CStr ''One''" using rs by simp
  have "cell_at (rs ! 0) ''Playlist'' = playlist_tag (CStr ''guitar hero 3'')"
    using tag [rule_format, of 0 "''guitar hero 3''"] i0 k(2) by blast
  then have b: "cell_at r0 ''Playlist'' = CStr ''guitar hero 3''" using rs t by simp
  have "rows df = [r0]" using sel rs b by simp
  then have "map (\<lambda>r. cell_at r ''Name'') (rows df) = [CStr ''One'']" using a by simp
  then show ?thesis using n l w by auto
qed





section \<open>Properties of the pattern matcher and of the filters\<close>

text \<open>A query without a character of \<open>metachars\<close> compiles to the sequence of its literals.\<close>

lemma re_parse_literal:
  "set q \<inter> metachars = {} \<Longrightarrow>
   re_parse q [] alts items rep = Returns (mk_alt alts (mk_seq (items @ map Lit q)))"
proof (induction q arbitrary: items rep)
  case Nil
  show ?case by simp
next
  case (Cons c cs)
  then have c: "c \<notin> metachars" and cs: "set cs \<inter> metachars = {}" by auto
  from c have "re_parse (c # cs) [] alts items rep = re_parse cs [] alts (items @ [Lit c]) False"
    by (simp add: metachars_def)
  then show ?case using Cons.IH [OF cs, of "items @ [Lit c]" False] by simp
qed

lemma re_compile_literal:
  "set q \<inter> metachars = {} \<Longrightarrow> re_compile q = Returns (mk_seq (map Lit q))"
  using re_parse_literal [of q "[]" "[]" False] by (simp add: re_compile_def)

lemma match_here_Nul: "\<not> match_here Nul s"
  by (induction s) auto

lemma match_here_Alt: "match_here (Alt a b) s \<longleftrightarrow> match_here a s \<or> match_here b s"
  by (induction s arbitrary: a b) auto

lemma match_here_Seq_Nul: "\<not> match_here (Seq Nul r) s"
  by (induction s) auto

lemma match_here_Seq_Eps: "match_here (Seq Eps r) s \<longleftrightarrow> match_here r s"
  by (cases s) (auto simp: match_here_Alt match_here_Seq_Nul)

lemma match_here_Seq_Lit:
  "match_here (Seq (Lit c) r) s \<longleftrightarrow>
     (case s of [] \<Rightarrow> False | x # xs \<Rightarrow> lower_char x = lower_char c \<and> match_here r xs)"
  by (cases s) (auto simp: match_here_Seq_Eps match_here_Seq_Nul)

lemma match_here_literal:
  "match_here (mk_seq (map Lit q)) s \<longleftrightarrow> prefix (py_lower q) (py_lower s)"
proof (induction q arbitrary: s)
  case Nil
  show ?case by (cases s) (simp_all add: py_lower_def)
next
  case (Cons c cs)
  show ?case
  proof (cases s)
    case Nil
    then show ?thesis by (simp add: match_here_Seq_Lit py_lower_def)
  next
    case s: (Cons x xs)
    have "match_here (mk_seq (map Lit (c # cs))) (x # xs)
          \<longleftrightarrow> lower_char x = lower_char c \<and> match_here (mk_seq (map Lit cs)) xs"
      by (simp add: match_here_Seq_Lit del: match_here.simps)
    then show ?thesis using s Cons.IH [of xs] by (auto simp: py_lower_def)
  qed
qed

lemma nullable_literal: "nullable (mk_seq (map Lit q)) \<longleftrightarrow> q = []"
  by (cases q) auto

lemma re_search_literal:
  "re_search (mk_seq (map Lit q)) s \<longleftrightarrow> contains_ci s q"
proof (induction s)
  case Nil
  show ?case by (simp add: nullable_literal contains_ci_def py_lower_def)
next
  case (Cons x xs)
  have "re_search (mk_seq (map Lit q)) (x # xs)
        \<longleftrightarrow> match_here (mk_seq (map Lit q)) (x # xs) \<or> re_search (mk_seq (map Lit q)) xs"
    by simp
  also have "\<dots> \<longleftrightarrow> prefix (py_lower q) (py_lower (x # xs)) \<or> sublist (py_lower q) (py_lower xs)"
    using Cons.IH by (simp only: match_here_literal contains_ci_def)
  also have "\<dots> \<longleftrightarrow> sublist (py_lower q) (py_lower (x # xs))"
    by (simp add: py_lower_def sublist_Cons_right)
  finally show ?case by (simp add: contains_ci_def)
qed

lemma str_contains_literal:
  "set q \<inter> metachars = {} \<Longrightarrow>
   str_contains vs q = Returns (map (\<lambda>s. contains_ci s q) vs)"
  by (simp add: str_contains_def re_compile_literal re_search_literal)

lemma filter_column_literal:
  assumes "q \<noteq> []" and "set q \<inter> metachars = {}" and "col \<in> set (columns df)"
  shows "filter_column col q (df, msgs) =
           Returns (df\<lparr>rows := filter (\<lambda>r. contains_ci (astype_str (cell_at r col)) q) (rows df)\<rparr>, msgs)"
proof -
  have "map (\<lambda>s. contains_ci s q) (map astype_str (column df col))
        = map (\<lambda>r. contains_ci (astype_str (cell_at r col)) q) (rows df)"
    by (simp add: column_def)
  then show ?thesis using assms
    by (simp add: filter_column_def str_contains_literal select_rows_def zip_map_filter)
qed

lemma filter_column_empty: "filter_column col [] st = Returns st"
  by (cases st) (simp add: filter_column_def)

section \<open>The claims about the filters\<close>

text \<open>
  C8. With both queries empty the filters return the dataset as it is: every record,
  unchanged and in the same order, and no message.
\<close>

theorem filtered_df_no_query: "filtered_df df_songs [] [] = Returns (df_songs, [])"
  by (simp add: filtered_df_def filter_column_empty)

theorem filtered_df_no_query_witness:
  "filtered_df
     \<lparr>columns = [''Name'', ''Artist'', ''Playlist'', ''Year'', ''songlength''],
      rows = [[(''Name'', CStr ''One''), (''Artist'', CStr ''Metallica''),
               (''Playlist'', CStr ''guitar hero 3''), (''Year'', CStr ''1989''),
               (''songlength'', CNone)],
              [(''Name'', CNone), (''Artist'', CStr ''Slayer''),
               (''Playlist'', CStr ''guitar hero 3''), (''Year'', CNone),
               (''songlength'', CNone)]]\<rparr> [] []
   = Returns
      (\<lparr>columns = [''Name'', ''Artist'', ''Playlist'', ''Year'', ''songlength''],
        rows = [[(''Name'', CStr ''One''), (''Artist'', CStr ''Metallica''),
                 (''Playlist'', CStr ''guitar hero 3''), (''Year'', CStr ''1989''),
                 (''songlength'', CNone)],
                [(''Name'', CNone), (''Artist'', CStr ''Slayer''),
                 (''Playlist'', CStr ''guitar hero 3''), (''Year'', CNone),
                 (''songlength'', CNone)]]\<rparr>, [])"
  by (rule filtered_df_no_query)

text \<open>
  What the filters do with queries that have no character of \<open>metachars\<close>, on a dataset
  that \<open>load_song_data\<close> returns: the records stay whose column, as \<open>astype(str)\<close>
  renders it, contains the query without regard to case, and two queries act together.
\<close>

lemma filtered_df_literal_queries:
  assumes "load_song_data fs p = (Some df, msgs)"
    and "nameQuery \<noteq> []" and "set nameQuery \<inter> metachars = {}"
  shows "filtered_df df nameQuery [] =
           Returns (df\<lparr>rows := filter (\<lambda>r. contains_ci (astype_str (cell_at r ''Name'')) nameQuery)
                                 (rows df)\<rparr>, [])
         \<and> (artistQuery \<noteq> [] \<and> set artistQuery \<inter> metachars = {} \<longrightarrow>
              filtered_df df nameQuery artistQuery =
                Returns (df\<lparr>rows := filter (\<lambda>r. contains_ci (astype_str (cell_at r ''Name'')) nameQuery
                                        \<and> contains_ci (astype_str (cell_at r ''Artist'')) artistQuery)
                                 (rows df)\<rparr>, []))"
proof -
  let ?n = "\<lambda>r. contains_ci (astype_str (cell_at r ''Name'')) nameQuery"
  let ?a = "\<lambda>r. contains_ci (astype_str (cell_at r ''Artist'')) artistQuery"
  have cn: "''Name'' \<in> set (columns df)" and ca: "''Artist'' \<in> set (columns df)"
    using load_song_data_required [OF assms(1)] by simp_all
  have n: "filter_column ''Name'' nameQuery (df, []) = Returns (df\<lparr>rows := filter ?n (rows df)\<rparr>, [])"
    using filter_column_literal [OF assms(2,3) cn] by simp
  have one: "filtered_df df nameQuery [] = Returns (df\<lparr>rows := filter ?n (rows df)\<rparr>, [])"
    using n by (simp add: filtered_df_def filter_column_empty)
  have two: "filtered_df df nameQuery artistQuery
             = Returns (df\<lparr>rows := filter (\<lambda>r. ?n r \<and> ?a r) (rows df)\<rparr>, [])"
    if h: "artistQuery \<noteq> []" "set artistQuery \<inter> metachars = {}"
  proof -
    have "''Artist'' \<in> set (columns (df\<lparr>rows := filter ?n (rows df)\<rparr>))" using ca by simp
    from filter_column_literal [OF h this, of "[]"]
    have "filter_column ''Artist'' artistQuery (df\<lparr>rows := filter ?n (rows df)\<rparr>, [])
          = Returns (df\<lparr>rows := filter ?a (filter ?n (rows df))\<rparr>, [])" by simp
    moreover have "filter ?a (filter ?n (rows df)) = filter (\<lambda>r. ?n r \<and> ?a r) (rows df)"
      by (simp add: conj_commute)
    ultimately show ?thesis using n by (simp add: filtered_df_def)
  qed
  show ?thesis using one two by blast
qed

lemma load_two_songs_example:
  "load_song_data
     (\<lambda>f. Contents (JList
        [Dict [(''Name'', JStr ''Through the Fire and Flames''), (''Artist'', JStr ''DragonForce''),
               (''Playlist'', JStr ''guitar hero 3'')],
         Dict [(''Name'', JStr ''Raining Blood (Dragon Mix)''), (''Artist'', JStr ''Slayer''),
               (''Playlist'', JStr ''guitar hero 3'')]]))
     SONGLIST_FILE
   = (Some \<lparr>columns = [''Name'', ''Artist'', ''Playlist'', ''Year'', ''songlength''],
             rows = [[(''Name'', CStr ''Through the Fire and Flames''), (''Artist'', CStr ''DragonForce''),
                      (''Playlist'', CStr ''guitar hero 3''), (''Year'', CNone), (''songlength'', CNone)],
                     [(''Name'', CStr ''Raining Blood (Dragon Mix)''), (''Artist'', CStr ''Slayer''),
                      (''Playlist'', CStr ''guitar hero 3''), (''Year'', CNone), (''songlength'', CNone)]]\<rparr>,
      [StWarning (''Warning: Column(s) ['Year', 'songlength'] not found in ''
                  @ ''songs.json. They will be shown as empty.'')])"
  by code_simp

lemma dragon_literal: "''dragon'' \<noteq> [] \<and> set ''dragon'' \<inter> metachars = {}"
  by (simp add: metachars_def backslash_def)

lemma dragon_rows:
  "filter (\<lambda>r. contains_ci (astype_str (cell_at r ''Name'')) ''dragon'')
     [[(''Name'', CStr ''Through the Fire and Flames''), (''Artist'', CStr ''DragonForce''),
       (''Playlist'', CStr ''guitar hero 3''), (''Year'', CNone), (''songlength'', CNone)],
      [(''Name'', CStr ''Raining Blood (Dragon Mix)''), (''Artist'', CStr ''Slayer''),
       (''Playlist'', CStr ''guitar hero 3''), (''Year'', CNone), (''songlength'', CNone)]]
   = [[(''Name'', CStr ''Raining Blood (Dragon Mix)''), (''Artist'', CStr ''Slayer''),
       (''Playlist'', CStr ''guitar hero 3''), (''Year'', CNone), (''songlength'', CNone)]]"
  by code_simp

lemma dragon_force_rows:
  "filter (\<lambda>r. contains_ci (astype_str (cell_at r ''Name'')) ''dragon''
               \<and> contains_ci (astype_str (cell_at r ''Artist'')) ''force'')
     [[(''Name'', CStr ''Through the Fire and Flames''), (''Artist'', CStr ''DragonForce''),
       (''Playlist'', CStr ''guitar hero 3''), (''Year'', CNone), (''songlength'', CNone)],
      [(''Name'', CStr ''Raining Blood (Dragon Mix)''), (''Artist'', CStr ''Slayer''),
       (''Playlist'', CStr ''guitar hero 3''), (''Year'', CNone), (''songlength'', CNone)]]
   = []"
  by code_simp

lemma filtered_df_dragon_example:
  "load_song_data
     (\<lambda>f. Contents (JList
        [Dict [(''Name'', JStr ''Through the Fire and Flames''), (''Artist'', JStr ''DragonForce''),
               (''Playlist'', JStr ''guitar hero 3'')],
         Dict [(''Name'', JStr ''Raining Blood (Dragon Mix)''), (''Artist'', JStr ''Slayer''),
               (''Playlist'', JStr ''guitar hero 3'')]]))
     SONGLIST_FILE
   = (Some \<lparr>columns = [''Name'', ''Artist'', ''Playlist'', ''Year'', ''songlength''],
             rows = [[(''Name'', CStr ''Through the Fire and Flames''), (''Artist'', CStr ''DragonForce''),
                      (''Playlist'', CStr ''guitar hero 3''), (''Year'', CNone), (''songlength'', CNone)],
                     [(''Name'', CStr ''Raining Blood (Dragon Mix)''), (''Artist'', CStr ''Slayer''),
                      (''Playlist'', CStr ''guitar hero 3''), (''Year'', CNone), (''songlength'', CNone)]]\<rparr>,
      [StWarning (''Warning: Column(s) ['Year', 'songlength'] not found in ''
                  @ ''songs.json. They will be shown as empty.'')])
   \<and> ''dragon'' \<noteq> [] \<and> set ''dragon'' \<inter> metachars = {}
   \<and> filtered_df
        \<lparr>columns = [''Name'', ''Artist'', ''Playlist'', ''Year'', ''songlength''],
          rows = [[(''Name'', CStr ''Through the Fire and Flames''), (''Artist'', CStr ''DragonForce''),
                   (''Playlist'', CStr ''guitar hero 3''), (''Year'', CNone), (''songlength'', CNone)],
                  [(''Name'', CStr ''Raining Blood (Dragon Mix)''), (''Artist'', CStr ''Slayer''),
                   (''Playlist'', CStr ''guitar hero 3''), (''Year'', CNone), (''songlength'', CNone)]]\<rparr>
        ''dragon'' []
      = Returns
         (\<lparr>columns = [''Name'', ''Artist'', ''Playlist'', ''Year'', ''songlength''],
           rows = [[(''Name'', CStr ''Raining Blood (Dragon Mix)''), (''Artist'', CStr ''Slayer''),
                    (''Playlist'', CStr ''guitar hero 3''), (''Year'', CNone), (''songlength'', CNone)]]\<rparr>,
          [])
   \<and> ''force'' \<noteq> [] \<and> set ''force'' \<inter> metachars = {}
   \<and> filtered_df
        \<lparr>columns = [''Name'', ''Artist'', ''Playlist'', ''Year'', ''songlength''],
          rows = [[(''Name'', CStr ''Through the Fire and Flames''), (''Artist'', CStr ''DragonForce''),
                   (''Playlist'', CStr ''guitar hero 3''), (''Year'', CNone), (''songlength'', CNone)],
                  [(''Name'', CStr ''Raining Blood (Dragon Mix)''), (''Artist'', CStr ''Slayer''),
                   (''Playlist'', CStr ''guitar hero 3''), (''Year'', CNone), (''songlength'', CNone)]]\<rparr>
        ''dragon'' ''force''
      = Returns
         (\<lparr>columns = [''Name'', ''Artist'', ''Playlist'', ''Year'', ''songlength''], rows = []\<rparr>, [])"
proof -
  let ?df = "\<lparr>columns = [''Name'', ''Artist'', ''Playlist'', ''Year'', ''songlength''],
          rows = [[(''Name'', CStr ''Through the Fire and Flames''), (''Artist'', CStr ''DragonForce''),
                   (''Playlist'', CStr ''guitar hero 3''), (''Year'', CNone), (''songlength'', CNone)],
                  [(''Name'', CStr ''Raining Blood (Dragon Mix)''), (''Artist'', CStr ''Slayer''),
                   (''Playlist'', CStr ''guitar hero 3''), (''Year'', CNone), (''songlength'', CNone)]]\<rparr>"
  have d: "''dragon'' \<noteq> []" "set ''dragon'' \<inter> metachars = {}"
    using dragon_literal by blast+
  have f: "''force'' \<noteq> []" "set ''force'' \<inter> metachars = {}"
    by (simp_all add: metachars_def backslash_def)
  note t = filtered_df_literal_queries [OF load_two_songs_example d, of "''force''"]
  from t have "filtered_df ?df ''dragon'' [] =
          Returns (?df\<lparr>rows := filter (\<lambda>r. contains_ci (astype_str (cell_at r ''Name'')) ''dragon'')
                                 (rows ?df)\<rparr>, [])"
    by blast
  then have one: "filtered_df ?df ''dragon'' [] =
          Returns (?df\<lparr>rows := [[(''Name'', CStr ''Raining Blood (Dragon Mix)''), (''Artist'', CStr ''Slayer''),
                    (''Playlist'', CStr ''guitar hero 3''), (''Year'', CNone), (''songlength'', CNone)]]\<rparr>, [])"
    by (simp only: dataframe.simps dragon_rows)
  from t f have "filtered_df ?df ''dragon'' ''force'' =
          Returns (?df\<lparr>rows := filter (\<lambda>r. contains_ci (astype_str (cell_at r ''Name'')) ''dragon''
                                        \<and> contains_ci (astype_str (cell_at r ''Artist'')) ''force'')
                                 (rows ?df)\<rparr>, [])"
    by blast
  then have two: "filtered_df ?df ''dragon'' ''force'' = Returns (?df\<lparr>rows := []\<rparr>, [])"
    by (simp only: dataframe.simps dragon_force_rows)
  show ?thesis using load_two_songs_example d f one two by simp
qed

text \<open>
  C1 fails on the code at the query \<open>.\<close>: \<open>str.contains\<close> is left at \<open>regex=True\<close>,
  the query is compiled as a regular expression, the dot matches any character, and the
  record named \<open>One\<close> stays although its name does not contain a dot.
\<close>

theorem filtered_df_dot_keeps_record:
  "fst (load_json SONGLIST_FILE
     (JList [Dict [(''Name'', JStr ''One''), (''Artist'', JStr ''Metallica''),
                   (''Playlist'', JStr ''guitar hero 3'')]]))
   = Some \<lparr>columns = [''Name'', ''Artist'', ''Playlist'', ''Year'', ''songlength''],
            rows = [[(''Name'', CStr ''One''), (''Artist'', CStr ''Metallica''),
                     (''Playlist'', CStr ''guitar hero 3''), (''Year'', CNone), (''songlength'', CNone)]]\<rparr>
   \<and> filtered_df
        \<lparr>columns = [''Name'', ''Artist'', ''Playlist'', ''Year'', ''songlength''],
          rows = [[(''Name'', CStr ''One''), (''Artist'', CStr ''Metallica''),
                   (''Playlist'', CStr ''guitar hero 3''), (''Year'', CNone), (''songlength'', CNone)]]\<rparr>
        ''.'' []
      = Returns
         (\<lparr>columns = [''Name'', ''Artist'', ''Playlist'', ''Year'', ''songlength''],
           rows = [[(''Name'', CStr ''One''), (''Artist'', CStr ''Metallica''),
                    (''Playlist'', CStr ''guitar hero 3''), (''Year'', CNone), (''songlength'', CNone)]]\<rparr>,
          [])
   \<and> \<not> contains_ci (astype_str (CStr ''One'')) ''.''"
  by code_simp

text \<open>
  C3 holds for no dataset once the query is \<open>(\<close>: \<open>re.compile\<close> raises \<open>re.error\<close> for the
  unclosed group, and nothing between \<open>str.contains\<close> and the top of the script catches it.
\<close>

theorem filtered_df_raises_on_open_paren:
  "fst (load_json SONGLIST_FILE
     (JList [Dict [(''Name'', JStr ''One''), (''Artist'', JStr ''Metallica''),
                   (''Playlist'', JStr ''guitar hero 3'')]]))
   = Some \<lparr>columns = [''Name'', ''Artist'', ''Playlist'', ''Year'', ''songlength''],
            rows = [[(''Name'', CStr ''One''), (''Artist'', CStr ''Metallica''),
                     (''Playlist'', CStr ''guitar hero 3''), (''Year'', CNone), (''songlength'', CNone)]]\<rparr>
   \<and> filtered_df
        \<lparr>columns = [''Name'', ''Artist'', ''Playlist'', ''Year'', ''songlength''],
          rows = [[(''Name'', CStr ''One''), (''Artist'', CStr ''Metallica''),
                   (''Playlist'', CStr ''guitar hero 3''), (''Year'', CNone), (''songlength'', CNone)]]\<rparr>
        ''('' []
      = Raises ReError"
  by code_simp

text \<open>
  C9 fails on the code: \<open>astype(str)\<close> turns a name that is \<open>None\<close> into the string
  \<open>None\<close> before \<open>str.contains\<close> sees it, so \<open>na=False\<close> has nothing left to exclude, and
  the query \<open>none\<close> keeps the record whose name is null.
\<close>

theorem filtered_df_keeps_null_name:
  "fst (load_json SONGLIST_FILE
     (JList [Dict [(''Name'', JNull), (''Artist'', JStr ''Slayer''),
                   (''Playlist'', JStr ''guitar hero 3'')]]))
   = Some \<lparr>columns = [''Name'', ''Artist'', ''Playlist'', ''Year'', ''songlength''],
            rows = [[(''Name'', CNone), (''Artist'', CStr ''Slayer''),
                     (''Playlist'', CStr ''guitar hero 3''), (''Year'', CNone), (''songlength'', CNone)]]\<rparr>
   \<and> filtered_df
        \<lparr>columns = [''Name'', ''Artist'', ''Playlist'', ''Year'', ''songlength''],
          rows = [[(''Name'', CNone), (''Artist'', CStr ''Slayer''),
                   (''Playlist'', CStr ''guitar hero 3''), (''Year'', CNone), (''songlength'', CNone)]]\<rparr>
        ''none'' []
      = Returns
         (\<lparr>columns = [''Name'', ''Artist'', ''Playlist'', ''Year'', ''songlength''],
           rows = [[(''Name'', CNone), (''Artist'', CStr ''Slayer''),
                    (''Playlist'', CStr ''guitar hero 3''), (''Year'', CNone), (''songlength'', CNone)]]\<rparr>,
          [])"
  by code_simp

end
